theory Spec2Isabelle
  imports Complex_Main
begin

section \<open>JavaScript strings\<close>

text \<open>
  A JavaScript string is a sequence of UTF-16 code units.  It is modelled as a \<^typ>\<open>string\<close>,
  one character per code unit, so the strings of the model are those whose code units are
  all below 256: \<open>U+0000\<close> to \<open>U+00FF\<close>, ASCII and Latin-1 (\<open>CHR 0xFC\<close> is \<open>U+00FC\<close>, the letter u
  with diaeresis).  On these strings the functions below agree, code unit for code unit, with
  the methods they stand for; a string with a code unit from \<open>U+0100\<close> on is outside the model.

  \<open>toLowerCase\<close>: the code units below 256 with a lower-case mapping are \<open>A\<close>..\<open>Z\<close> and
  \<open>U+00C0\<close>..\<open>U+00DE\<close> without the multiplication sign \<open>U+00D7\<close>; each maps to the code unit 32
  above it, which \<open>lowerChar\<close> reaches by setting the bit of weight 32 (\<open>b5\<close>, clear in both
  ranges).  \<open>trim\<close> strips the white space and line terminators of ECMAScript, of which
  \<open>U+0009\<close>..\<open>U+000D\<close>, \<open>U+0020\<close> and \<open>U+00A0\<close> are below 256.  \<open>includesStr\<close> is the substring test
  of \<open>String.prototype.includes\<close>.
\<close>

definition lowerChar :: "char \<Rightarrow> char" where
  "lowerChar c =
     (let n = (of_char c :: nat) in
        if (65 \<le> n \<and> n \<le> 90) \<or> (192 \<le> n \<and> n \<le> 222 \<and> n \<noteq> 215)
        then (case c of Char b0 b1 b2 b3 b4 b5 b6 b7 \<Rightarrow> Char b0 b1 b2 b3 b4 True b6 b7)
        else c)"

definition toLowerCase :: "string \<Rightarrow> string" where
  "toLowerCase s = map lowerChar s"

fun startsWith :: "'a list \<Rightarrow> 'a list \<Rightarrow> bool" where
  "startsWith s [] = True"
| "startsWith [] (c # cs) = False"
| "startsWith (x # xs) (c # cs) = (x = c \<and> startsWith xs cs)"

fun includesStr :: "'a list \<Rightarrow> 'a list \<Rightarrow> bool" where
  "includesStr [] needle = (needle = [])"
| "includesStr (x # xs) needle = (startsWith (x # xs) needle \<or> includesStr xs needle)"

definition isSpace :: "char \<Rightarrow> bool" where
  "isSpace c = ((of_char c :: nat) \<in> {9, 10, 11, 12, 13, 32, 160})"

definition trim :: "string \<Rightarrow> string" where
  "trim s = rev (dropWhile isSpace (rev (dropWhile isSpace s)))"

definition isDigit :: "char \<Rightarrow> bool" where
  "isDigit c = (48 \<le> (of_char c :: nat) \<and> (of_char c :: nat) \<le> 57)"

definition digitVal :: "char \<Rightarrow> nat" where
  "digitVal c = (of_char c :: nat) - 48"

section \<open>Checkout failure classification (checkout-classification.ts)\<close>

datatype CheckoutFailureStatus =
  status_blocked | status_access_denied | status_invalid_pickup_point | status_failed

text \<open>
  \<open>extractStatusCode\<close>: the first match of \<open>/\((\d{3})\)/\<close>, parsed in base 10; \<open>None\<close> is
  \<open>null\<close>.
\<close>

fun extractStatusCode :: "string \<Rightarrow> nat option" where
  "extractStatusCode (a # b # c # d # e # rest) =
     (if a = CHR ''('' \<and> isDigit b \<and> isDigit c \<and> isDigit d \<and> e = CHR '')''
      then Some (digitVal b * 100 + digitVal c * 10 + digitVal d)
      else extractStatusCode (b # c # d # e # rest))"
| "extractStatusCode _ = None"

text \<open>
  \<open>normalizeForMatch\<close> lower-cases, applies \<open>normalize('NFKD')\<close> and removes the code points
  of the general category Mark.  Every code point with a non-zero combining class is a
  mark, so the reordering of NFKD moves marks only, and the result is the concatenation, code
  unit by code unit, of the compatibility decomposition without its marks.  The result can
  leave Latin-1 (the micro sign becomes \<open>U+03BC\<close>, a vulgar fraction holds \<open>U+2044\<close>), so it is
  a list of code units as numbers.  \<open>nfkdStripMarks\<close> is the table of the Unicode Character
  Database for \<open>U+0000\<close>..\<open>U+00FF\<close>: a letter with an accent becomes the letter, a spacing accent
  and the no-break space become a space, a superscript digit or ordinal indicator becomes the
  digit or letter.
\<close>

definition units :: "string \<Rightarrow> nat list" where
  "units s = map of_char s"

definition nfkdStripMarks :: "char \<Rightarrow> nat list" where
  "nfkdStripMarks c =
     (let n = (of_char c :: nat) in
        if n < 160 then [n]
        else if n \<in> {160, 168, 175, 180, 184} then [32]
        else if n = 170 then [97]
        else if n = 178 then [50]
        else if n = 179 then [51]
        else if n = 181 then [956]
        else if n = 185 then [49]
        else if n = 186 then [111]
        else if n = 188 then [49, 8260, 52]
        else if n = 189 then [49, 8260, 50]
        else if n = 190 then [51, 8260, 52]
        else if 192 \<le> n \<and> n \<le> 197 then [65]
        else if n = 199 then [67]
        else if 200 \<le> n \<and> n \<le> 203 then [69]
        else if 204 \<le> n \<and> n \<le> 207 then [73]
        else if n = 209 then [78]
        else if 210 \<le> n \<and> n \<le> 214 then [79]
        else if 217 \<le> n \<and> n \<le> 220 then [85]
        else if n = 221 then [89]
        else if 224 \<le> n \<and> n \<le> 229 then [97]
        else if n = 231 then [99]
        else if 232 \<le> n \<and> n \<le> 235 then [101]
        else if 236 \<le> n \<and> n \<le> 239 then [105]
        else if n = 241 then [110]
        else if 242 \<le> n \<and> n \<le> 246 then [111]
        else if 249 \<le> n \<and> n \<le> 252 then [117]
        else if n = 253 \<or> n = 255 then [121]
        else [n])"

definition normalizeForMatch :: "string \<Rightarrow> nat list" where
  "normalizeForMatch v = concat (map nfkdStripMarks (toLowerCase v))"

definition hasAccessDeniedHint :: "string \<Rightarrow> bool" where
  "hasAccessDeniedHint message =
     (let lower = toLowerCase message; normalized = normalizeForMatch message in
        includesStr lower ''\"message_code\":\"access_denied\"'' \<or>
        includesStr lower ''message_code\":\"access_denied'' \<or>
        includesStr lower ''message_code=access_denied'' \<or>
        includesStr lower ''access_denied'' \<or>
        includesStr lower ''\"code\":106'' \<or>
        includesStr lower ''access denied'' \<or>
        includesStr normalized (units ''acces refuse''))"

definition hasBlockedKeyword :: "string \<Rightarrow> bool" where
  "hasBlockedKeyword message =
     (let lower = toLowerCase message in
        includesStr lower ''blockiert'' \<or>
        includesStr lower ''cloudflare'' \<or>
        includesStr lower ''captcha'' \<or>
        includesStr lower ''just a moment'')"

definition hasPickupHint :: "string \<Rightarrow> bool" where
  "hasPickupHint message =
     (let lower = toLowerCase message in
        includesStr lower ''pickup'' \<or>
        includesStr lower ''abholpunkt'' \<or>
        includesStr lower ''relay'' \<or>
        includesStr lower ''parcel'')"

definition classifyCheckoutErrorMessage :: "string \<Rightarrow> CheckoutFailureStatus" where
  "classifyCheckoutErrorMessage message =
     (let statusCode = extractStatusCode message in
      if hasAccessDeniedHint message \<and>
         (statusCode = Some 401 \<or> statusCode = Some 403 \<or> statusCode = None)
      then status_access_denied
      else if hasBlockedKeyword message \<or> statusCode = Some 403
      then status_blocked
      else if hasPickupHint message \<and>
         (statusCode = Some 400 \<or> statusCode = Some 404 \<or> statusCode = Some 422)
      then status_invalid_pickup_point
      else if hasPickupHint message
      then status_invalid_pickup_point
      else status_failed)"

text \<open>
  The four messages of the repository's classification test, and messages that tell the
  rules apart: the French hint in capitals and with its accents, a hint next to a status
  that is not 401 or 403, and messages that meet two rules at once.
\<close>

definition msg_access_denied :: string where
  "msg_access_denied =
     ''Vinted request failed (403). {\"code\":106,\"message\":\"Acc'' @ [CHR 0xE8] @ ''s refus''
     @ [CHR 0xE9] @ '' \",\"message_code\":\"access_denied\"}''"

definition msg_blocked :: string where
  "msg_blocked = ''Vinted hat die Anfrage blockiert (Anti-Bot/Cloudflare). Bitte warte kurz.''"

definition msg_pickup :: string where
  "msg_pickup = ''Vinted request failed (422). pickup_point is not valid for this listing.''"

definition msg_failed :: string where
  "msg_failed = ''Vinted request failed (500). Internal server error''"

definition msg_refuse_capitals :: string where
  "msg_refuse_capitals = ''ACCES REFUSE''"

definition msg_refuse_accents :: string where
  "msg_refuse_accents =
     ''Vinted request failed (401). Acc'' @ [CHR 0xC8] @ ''s refus'' @ [CHR 0xE9]"

definition msg_denied_500 :: string where
  "msg_denied_500 = ''Vinted request failed (500). {\"message_code\":\"access_denied\"}''"

definition msg_denied_500_captcha :: string where
  "msg_denied_500_captcha = ''Vinted request failed (500). access_denied, captcha required''"

definition msg_denied_captcha :: string where
  "msg_denied_captcha = ''Vinted request failed (401). access_denied, captcha required''"

definition msg_pickup_403 :: string where
  "msg_pickup_403 = ''Vinted request failed (403). pickup_point is not valid for this listing.''"

definition msg_pickup_cloudflare :: string where
  "msg_pickup_cloudflare = ''Vinted request failed (422). Cloudflare: PARCEL shop unknown''"

definition msg_relay_500 :: string where
  "msg_relay_500 = ''Vinted request failed (500). Mondial RELAY point not found''"

section \<open>Token lifecycle (services/vinted-token-service.ts)\<close>

text \<open>
  A \<open>Result<T, Error>\<close> is a sum: \<open>Inl message\<close> is \<open>err(new Error(message))\<close>, \<open>Inr v\<close> is
  \<open>ok(v)\<close>.  Times are milliseconds as \<open>Date.now()\<close> returns them; \<open>created_at\<close> and
  \<open>expires_in\<close> are the whole seconds of the token endpoint.
\<close>

type_synonym userId = string
type_synonym 'a Result = "string + 'a"

datatype VintedRegion =
  region_de | region_at | region_fr | region_it | region_es | region_nl | region_pl
  | region_cz | region_pt

definition uuml :: string where "uuml = [CHR 0xFC]"
definition auml :: string where "auml = [CHR 0xE4]"

definition unsupportedRegionMessage :: string where
  "unsupportedRegionMessage = ''Nicht unterst'' @ uuml @ ''tzte Region.''"

definition parseRegion :: "string \<Rightarrow> VintedRegion Result" where
  "parseRegion r =
     (if r = ''de'' then Inr region_de else if r = ''at'' then Inr region_at
      else if r = ''fr'' then Inr region_fr else if r = ''it'' then Inr region_it
      else if r = ''es'' then Inr region_es else if r = ''nl'' then Inr region_nl
      else if r = ''pl'' then Inr region_pl else if r = ''cz'' then Inr region_cz
      else if r = ''pt'' then Inr region_pt else Inl unsupportedRegionMessage)"

record CachedToken =
  accessToken :: string
  refreshToken :: string
  expiresAtMs :: int
  region :: VintedRegion

record BlockState =
  until :: int
  strikes :: nat

text \<open>The field of \<open>ReauthState\<close> is \<open>until\<close> in the source.\<close>

record ReauthState =
  reauthUntil :: int

record Account =
  accountRegion :: string
  encryptedRefreshToken :: string
  pickupPoint :: "string option"

record VintedTokenResponse =
  respAccessToken :: string
  respRefreshToken :: string
  expiresIn :: int
  createdAt :: int

text \<open>
  What a call does outside the four maps is recorded in a log: the account lookup, the
  decryption, the refresh call of the client, the write of a rotated refresh token.
\<close>

datatype Effect =
  LoadAccount userId
  | DecryptToken string
  | RefreshCall userId VintedRegion string
  | PersistRefreshToken userId string

text \<open>
  The module state: the maps \<open>cache\<close>, \<open>blocked\<close>, \<open>reauthRequired\<close> and \<open>inFlight\<close> (a promise
  is its number; \<open>nextPromise\<close> numbers the next one), and the log.
\<close>

record TokenState =
  cache :: "userId \<rightharpoonup> CachedToken"
  blocked :: "userId \<rightharpoonup> BlockState"
  reauthRequired :: "userId \<rightharpoonup> ReauthState"
  inFlight :: "userId \<rightharpoonup> nat"
  nextPromise :: nat
  effects :: "Effect list"

definition REAUTH_COOLDOWN_MS :: int where
  "REAUTH_COOLDOWN_MS = 30 * 60 * 1000"

definition isBlockedError :: "string \<Rightarrow> bool" where
  "isBlockedError message = includesStr (toLowerCase message) ''blockiert''"

definition isInvalidGrantError :: "string \<Rightarrow> bool" where
  "isInvalidGrantError message =
     (let lower = toLowerCase message in
        includesStr lower ''invalid_grant'' \<or> includesStr lower ''authorization grant is invalid'')"

definition reauthRequiredMessage :: string where
  "reauthRequiredMessage =
     ''Vinted-Token ist ung'' @ uuml @ ''ltig oder abgelaufen. F'' @ uuml @
     ''hre /setup account mit einem frischen refresh_token_web erneut aus.''"

definition blockedMessage :: string where
  "blockedMessage =
     ''Vinted hat die Anfrage blockiert (Anti-Bot/Cloudflare). Bitte warte kurz und versuche es sp''
     @ auml @ ''ter erneut.''"

definition decryptFailedMessage :: string where
  "decryptFailedMessage =
     ''Gespeicherter Refresh-Token konnte nicht entschl'' @ uuml @
     ''sselt werden. F'' @ uuml @ ''hre /setup account erneut aus.''"

definition refreshFailedMessage :: string where
  "refreshFailedMessage =
     ''Vinted-Token konnte nicht erneuert werden. F'' @ uuml @ ''hre /setup account erneut aus.''"

text \<open>\<open>bumpBackoff\<close>; \<open>now\<close> is its \<open>Date.now()\<close>.\<close>

definition bumpBackoff :: "int \<Rightarrow> BlockState option \<Rightarrow> BlockState" where
  "bumpBackoff now prev =
     (let strikes' = min ((case prev of None \<Rightarrow> 0 | Some b \<Rightarrow> strikes b) + 1) 6;
          delayMs = min (30 * 60000) (30000 * 2 ^ strikes')
      in \<lparr>until = now + delayMs, strikes = strikes'\<rparr>)"

text \<open>
  The strikes a block state carries, \<open>prev?.strikes ?? 0\<close>, as a function of its own; the
  statements about runs of blocked calls are written with it.
\<close>

definition strikesOf :: "BlockState option \<Rightarrow> nat" where
  "strikesOf prev = (case prev of None \<Rightarrow> 0 | Some b \<Rightarrow> strikes b)"

definition clearTokenStateForUser :: "userId \<Rightarrow> TokenState \<Rightarrow> TokenState" where
  "clearTokenStateForUser u s =
     s\<lparr>cache := (cache s)(u := None),
       blocked := (blocked s)(u := None),
       reauthRequired := (reauthRequired s)(u := None),
       inFlight := (inFlight s)(u := None)\<rparr>"

text \<open>
  What the outside world gives one call of \<open>getAccessTokenForUser\<close>: the three clock reads
  of its entry checks, the result of \<open>getAccountForUser\<close>, of \<open>decryptToken\<close> (\<open>None\<close> when it
  throws), of \<open>vinted.refreshToken\<close>, the clock read of the failure branches, and
  \<open>encryptToken\<close>.
\<close>

record CallEnv =
  tCache :: int
  tBlock :: int
  tReauth :: int
  accountResult :: "Account Result"
  decryptResult :: "string option"
  refreshResult :: "VintedTokenResponse Result"
  failureNow :: int
  encryptToken :: "string \<Rightarrow> string"

text \<open>
  The synchronous part of \<open>getAccessTokenForUser\<close>, up to \<open>inFlight.set\<close>: it returns at once,
  or hands out the promise in flight, or starts a refresh (the account lookup is issued
  before the first suspension).
\<close>

datatype CallStart =
  Returned "CachedToken Result"
  | AwaitsExisting nat
  | StartedRefresh nat

definition getAccessTokenForUser_enter ::
  "int \<Rightarrow> int \<Rightarrow> int \<Rightarrow> userId \<Rightarrow> TokenState \<Rightarrow> CallStart \<times> TokenState" where
  "getAccessTokenForUser_enter tc tb tr u s =
     (case (case cache s u of
              Some cached \<Rightarrow> if tc < expiresAtMs cached - 30000 then Some cached else None
            | None \<Rightarrow> None) of
        Some cached \<Rightarrow> (Returned (Inr cached), s)
      | None \<Rightarrow>
          if (case blocked s u of Some block \<Rightarrow> tb < until block | None \<Rightarrow> False)
          then (Returned (Inl blockedMessage), s)
          else if (case reauthRequired s u of Some reauth \<Rightarrow> tr < reauthUntil reauth
                   | None \<Rightarrow> False)
          then (Returned (Inl reauthRequiredMessage), s)
          else (case inFlight s u of
                  Some existing \<Rightarrow> (AwaitsExisting existing, s)
                | None \<Rightarrow>
                    (StartedRefresh (nextPromise s),
                     s\<lparr>inFlight := (inFlight s)(u \<mapsto> nextPromise s),
                       nextPromise := Suc (nextPromise s),
                       effects := effects s @ [LoadAccount u]\<rparr>)))"

text \<open>
  The rest of the promise, from the account result to \<open>finally\<close>, run as one step: callers
  of the same user are parked on the promise meanwhile, and other users touch other keys.
\<close>

definition refreshBody :: "CallEnv \<Rightarrow> userId \<Rightarrow> TokenState \<Rightarrow> CachedToken Result \<times> TokenState" where
  "refreshBody env u s =
     (case accountResult env of
        Inl e \<Rightarrow> (Inl e, s)
      | Inr account \<Rightarrow>
         (case parseRegion (accountRegion account) of
            Inl e \<Rightarrow> (Inl e, s)
          | Inr reg \<Rightarrow>
             (let s1 = s\<lparr>effects := effects s @ [DecryptToken (encryptedRefreshToken account)]\<rparr>
              in case decryptResult env of
                None \<Rightarrow> (Inl decryptFailedMessage, s1)
              | Some refreshTok \<Rightarrow>
                 (let s2 = s1\<lparr>effects := effects s1 @ [RefreshCall u reg refreshTok]\<rparr>
                  in case refreshResult env of
                    Inl message \<Rightarrow>
                      if isBlockedError message
                      then (Inl message,
                            s2\<lparr>blocked := (blocked s2)(u \<mapsto> bumpBackoff (failureNow env) (blocked s2 u))\<rparr>)
                      else if isInvalidGrantError message
                      then (Inl reauthRequiredMessage,
                            s2\<lparr>reauthRequired := (reauthRequired s2)
                                  (u \<mapsto> \<lparr>reauthUntil = failureNow env + REAUTH_COOLDOWN_MS\<rparr>),
                               cache := (cache s2)(u := None),
                               blocked := (blocked s2)(u := None)\<rparr>)
                      else (Inl refreshFailedMessage, s2)
                  | Inr refreshed \<Rightarrow>
                     (let next = \<lparr>accessToken = respAccessToken refreshed,
                                  refreshToken = respRefreshToken refreshed,
                                  expiresAtMs = (createdAt refreshed + expiresIn refreshed) * 1000,
                                  region = reg\<rparr>;
                          s3 = s2\<lparr>cache := (cache s2)(u \<mapsto> next)\<rparr>;
                          s4 = (if respRefreshToken refreshed \<noteq> refreshTok
                                then s3\<lparr>effects := effects s3 @
                                       [PersistRefreshToken u (encryptToken env (respRefreshToken refreshed))]\<rparr>
                                else s3)
                      in (Inr next,
                          s4\<lparr>blocked := (blocked s4)(u := None),
                             reauthRequired := (reauthRequired s4)(u := None)\<rparr>))))))"

definition getAccessTokenForUser_settle ::
  "CallEnv \<Rightarrow> userId \<Rightarrow> TokenState \<Rightarrow> CachedToken Result \<times> TokenState" where
  "getAccessTokenForUser_settle env u s =
     (case refreshBody env u s of (r, s') \<Rightarrow> (r, s'\<lparr>inFlight := (inFlight s')(u := None)\<rparr>))"

text \<open>A call that runs to its end before the next one starts.\<close>

datatype CallOutcome =
  Resolved "CachedToken Result"
  | SharesInFlight nat

definition getAccessTokenForUser :: "CallEnv \<Rightarrow> userId \<Rightarrow> TokenState \<Rightarrow> CallOutcome \<times> TokenState" where
  "getAccessTokenForUser env u s =
     (case getAccessTokenForUser_enter (tCache env) (tBlock env) (tReauth env) u s of
        (Returned r, s') \<Rightarrow> (Resolved r, s')
      | (AwaitsExisting p, s') \<Rightarrow> (SharesInFlight p, s')
      | (StartedRefresh p, s') \<Rightarrow>
          (case getAccessTokenForUser_settle env u s' of (r, s'') \<Rightarrow> (Resolved r, s'')))"

text \<open>
  \<open>refreshOutcome\<close>: the result of the refresh call when the call makes one (it passed the
  entry checks, found the account, its region and the refresh token), \<open>None\<close> otherwise.
\<close>

definition refreshOutcome ::
  "CallEnv \<Rightarrow> userId \<Rightarrow> TokenState \<Rightarrow> VintedTokenResponse Result option" where
  "refreshOutcome env u s =
     (case fst (getAccessTokenForUser_enter (tCache env) (tBlock env) (tReauth env) u s) of
        StartedRefresh p \<Rightarrow>
          (case accountResult env of
             Inl e \<Rightarrow> None
           | Inr account \<Rightarrow>
              (case parseRegion (accountRegion account) of
                 Inl e \<Rightarrow> None
               | Inr reg \<Rightarrow>
                  (case decryptResult env of None \<Rightarrow> None | Some t \<Rightarrow> Some (refreshResult env))))
      | _ \<Rightarrow> None)"

definition failsBlocked :: "CallEnv \<Rightarrow> userId \<Rightarrow> TokenState \<Rightarrow> bool" where
  "failsBlocked env u s =
     (case refreshOutcome env u s of Some (Inl message) \<Rightarrow> isBlockedError message | _ \<Rightarrow> False)"

fun runCalls :: "CallEnv list \<Rightarrow> userId \<Rightarrow> TokenState \<Rightarrow> TokenState" where
  "runCalls [] u s = s"
| "runCalls (env # envs) u s = runCalls envs u (snd (getAccessTokenForUser env u s))"

fun callResults :: "CallEnv list \<Rightarrow> userId \<Rightarrow> TokenState \<Rightarrow> CallOutcome list" where
  "callResults [] u s = []"
| "callResults (env # envs) u s =
     fst (getAccessTokenForUser env u s) # callResults envs u (snd (getAccessTokenForUser env u s))"

fun consecutiveBlockedFailures :: "CallEnv list \<Rightarrow> userId \<Rightarrow> TokenState \<Rightarrow> bool" where
  "consecutiveBlockedFailures [] u s = True"
| "consecutiveBlockedFailures (env # envs) u s =
     (failsBlocked env u s \<and> consecutiveBlockedFailures envs u (snd (getAccessTokenForUser env u s)))"

definition refreshCalls :: "userId \<Rightarrow> TokenState \<Rightarrow> nat" where
  "refreshCalls u s =
     length (filter (\<lambda>e. case e of RefreshCall v r t \<Rightarrow> v = u | _ \<Rightarrow> False) (effects s))"

definition emptyTokenState :: TokenState where
  "emptyTokenState =
     \<lparr>cache = Map.empty, blocked = Map.empty, reauthRequired = Map.empty,
      inFlight = Map.empty, nextPromise = 0, effects = []\<rparr>"

text \<open>Sample data for concrete runs: an account in region \<open>de\<close>, calls, tokens, messages.\<close>

definition sampleAccount :: Account where
  "sampleAccount =
     \<lparr>accountRegion = ''de'', encryptedRefreshToken = ''encrypted'', pickupPoint = None\<rparr>"

definition sampleEnv :: "int \<Rightarrow> int \<Rightarrow> VintedTokenResponse Result \<Rightarrow> CallEnv" where
  "sampleEnv t tf r =
     \<lparr>tCache = t, tBlock = t, tReauth = t, accountResult = Inr sampleAccount,
      decryptResult = Some ''refresh-token'', refreshResult = r, failureNow = tf,
      encryptToken = (\<lambda>x. x)\<rparr>"

definition sampleResponse :: VintedTokenResponse where
  "sampleResponse =
     \<lparr>respAccessToken = ''access'', respRefreshToken = ''refresh-token'', expiresIn = 3600,
      createdAt = 10\<rparr>"



definition msg_invalid_grant :: string where
  "msg_invalid_grant = ''Vinted request failed (401). {\"error\":\"invalid_grant\"}''"

definition msg_invalid_grant_blocked :: string where
  "msg_invalid_grant_blocked =
     ''Vinted request failed (400). {\"error\":\"invalid_grant\",\"error_description\":\"Anfrage blockiert\"}''"

section \<open>JSON values and the platform (infra/vinted/vinted-client.ts)\<close>

text \<open>
  A value that \<open>JSON.parse\<close> returns: a finite number is the rational it denotes and
  \<open>JNonFinite\<close> is the \<open>Infinity\<close> of an overflowing literal; an object is the list of its own
  properties in the order \<open>Object.entries\<close> yields them.  Such a value is a tree: no object
  occurs in it twice, so the \<open>seen\<close> sets of the nested searches never answer \<open>true\<close>.
  \<open>None\<close> of type \<^typ>\<open>'a option\<close> stands for \<open>undefined\<close>.
\<close>

datatype json =
  JNull
  | JBool bool
  | JNum rat
  | JNonFinite
  | JStr string
  | JArr "json list"
  | JObj "(string \<times> json) list"

text \<open>
  What the platform computes and the repository only calls: \<open>JSON.parse\<close> (\<open>None\<close> when it
  throws), \<open>JSON.stringify\<close>, \<open>String\<close> of a finite number, \<open>new URL(candidate, base).toString()\<close>
  (\<open>None\<close> when the constructor throws), \<open>BigInt\<close> of a string (\<open>None\<close> when it throws) and
  \<open>encodeURIComponent\<close>.
\<close>

record Platform =
  jsonParse :: "string \<Rightarrow> json option"
  jsonStringify :: "json \<Rightarrow> string"
  numberToString :: "rat \<Rightarrow> string"
  urlToString :: "string \<Rightarrow> string \<Rightarrow> string option"
  bigIntOfString :: "string \<Rightarrow> int option"
  encodeURIComponent :: "string \<Rightarrow> string"
  urlHostname :: "string \<Rightarrow> string option"
  urlOrigin :: "string \<Rightarrow> string option"
  toFixed2 :: "rat \<Rightarrow> string"

text \<open>Decimal digits of an integer, as a template literal prints it.\<close>

definition digitChar :: "nat \<Rightarrow> char" where
  "digitChar d = ''0123456789'' ! d"

function showNat :: "nat \<Rightarrow> string" where
  "showNat n =
     (if n < 10 then [digitChar n] else showNat (n div 10) @ [digitChar (n mod 10)])"
  by pat_completeness auto
termination
  by (relation "measure id") auto

declare showNat.simps [simp del]

definition showInt :: "int \<Rightarrow> string" where
  "showInt i = (if i < 0 then CHR ''-'' # showNat (nat (- i)) else showNat (nat i))"

text \<open>
  \<open>Number.parseInt(s, 10)\<close>: white space, a sign, then the longest run of digits; \<open>None\<close> is
  \<open>NaN\<close>.
\<close>

definition parseInt10 :: "string \<Rightarrow> int option" where
  "parseInt10 s =
     (let t = dropWhile isSpace s;
          neg = (case t of c # cs \<Rightarrow> c = CHR ''-'' | [] \<Rightarrow> False);
          r = (case t of c # cs \<Rightarrow> if c = CHR ''-'' \<or> c = CHR ''+'' then cs else t | [] \<Rightarrow> []);
          ds = takeWhile isDigit r
      in if ds = [] then None
         else Some ((if neg then - 1 else 1) * int (foldl (\<lambda>a c. a * 10 + digitVal c) 0 ds)))"

section \<open>Transport: bot-block detection, the curl backend, the fetch backend\<close>

definition looksLikeBotBlock :: "int \<Rightarrow> string option \<Rightarrow> string \<Rightarrow> bool" where
  "looksLikeBotBlock status contentType text =
     (if status \<noteq> 403 then False
      else if (case contentType of
                 Some ct \<Rightarrow> includesStr (toLowerCase ct) ''text/html''
               | None \<Rightarrow> False)
      then True
      else (let lower = toLowerCase text in
              includesStr lower ''<!doctype html'' \<or>
              includesStr lower ''<title>vinted</title'' \<or>
              includesStr lower ''just a moment''))"

definition toVintedBlockedError :: string where
  "toVintedBlockedError =
     ''Vinted hat die Anfrage blockiert (Anti-Bot/Cloudflare). Bitte warte kurz und versuche es sp''
     @ auml @ ''ter erneut.''"

definition requestFailedMessage :: "int \<Rightarrow> string \<Rightarrow> string" where
  "requestFailedMessage status text =
     ''Vinted request failed ('' @ showInt status @ ''). '' @
     (if trim (take 200 text) = [] then ''No body.'' else trim (take 200 text))"

text \<open>What one run of the curl process leaves: its exit code and its two output streams.\<close>

record CurlRun =
  exitCode :: int
  stdout :: string
  stderr :: string

text \<open>
  \<open>fetchJsonViaCurl\<close>, from the exit of the process on.  What follows the last newline of
  \<open>stdout\<close> is the status that \<open>--write-out\<close> appends (\<open>curlStatusText\<close>), what precedes it is
  the body (\<open>curlBodyText\<close>); curl reports no content type, so the detection gets \<open>null\<close>.
\<close>

definition curlStatusText :: "string \<Rightarrow> string" where
  "curlStatusText out = trim (rev (takeWhile (\<lambda>c. c \<noteq> CHR 0x0A) (rev out)))"

definition curlBodyText :: "string \<Rightarrow> string" where
  "curlBodyText out = rev (tl (dropWhile (\<lambda>c. c \<noteq> CHR 0x0A) (rev out)))"

definition fetchJsonViaCurl :: "Platform \<Rightarrow> CurlRun \<Rightarrow> json Result" where
  "fetchJsonViaCurl P run =
     (if exitCode run \<noteq> 0
      then Inl (''Curl request failed (exit '' @ showInt (exitCode run) @ ''). '' @
                (if trim (stderr run) = [] then ''No stderr.'' else take 200 (trim (stderr run))))
      else if CHR 0x0A \<notin> set (stdout run)
      then Inl ''Curl response missing status code.''
      else (let statusText = curlStatusText (stdout run);
                text = curlBodyText (stdout run)
            in case parseInt10 statusText of
                 None \<Rightarrow> Inl ''Curl returned invalid status code.''
               | Some status \<Rightarrow>
                   if status < 200 \<or> status \<ge> 300
                   then (if looksLikeBotBlock status None text then Inl toVintedBlockedError
                         else Inl (requestFailedMessage status text))
                   else (case jsonParse P text of
                           Some v \<Rightarrow> Inr v
                         | None \<Rightarrow> Inl ''Failed to parse Vinted response.'')))"

datatype VintedHttpBackend = backend_auto | backend_fetch | backend_curl

record FetchResponse =
  resStatus :: int
  resContentType :: "string option"
  resText :: string

text \<open>
  What the outside world gives one call of \<open>fetchJson\<close>: the configured backend, whether the
  prefer-curl window is open, the outcome of \<open>fetch\<close> (\<open>None\<close> when it rejects) and the runs of
  the curl process, in the order they are started.
\<close>

record TransportEnv =
  backend :: VintedHttpBackend
  preferCurl :: bool
  fetchOutcome :: "FetchResponse option"
  curlRuns :: "nat \<Rightarrow> CurlRun"

text \<open>
  \<open>fetchJson\<close>, from the choice of the backend on: its result, whether it opened the
  prefer-curl window, and how many curl runs it started.  How the request headers are built
  and which response cookies are kept is the session store's part below; neither enters the
  result once the responses are given.
\<close>

record TransportOut =
  result :: "json Result"
  markedPreferCurl :: bool
  curlStarted :: nat

definition fetchJson :: "Platform \<Rightarrow> TransportEnv \<Rightarrow> TransportOut" where
  "fetchJson P env =
     (if backend env = backend_curl \<or> (backend env = backend_auto \<and> preferCurl env)
      then \<lparr>result = fetchJsonViaCurl P (curlRuns env 0), markedPreferCurl = False,
            curlStarted = 1\<rparr>
      else case fetchOutcome env of
        None \<Rightarrow>
          \<lparr>result = fetchJsonViaCurl P (curlRuns env 0), markedPreferCurl = True,
           curlStarted = 1\<rparr>
      | Some res \<Rightarrow>
          if \<not> (200 \<le> resStatus res \<and> resStatus res \<le> 299)
          then (let retryViaCurl =
                      (if backend env = backend_auto \<and>
                          (resStatus res = 401 \<or> resStatus res = 403)
                       then Some (fetchJsonViaCurl P (curlRuns env 0)) else None)
                in case retryViaCurl of
                     Some (Inr v) \<Rightarrow>
                       \<lparr>result = Inr v, markedPreferCurl = (resStatus res = 403),
                        curlStarted = 1\<rparr>
                   | _ \<Rightarrow>
                      (let started = (if retryViaCurl = None then 0 else 1) in
                       if backend env = backend_auto \<and>
                          looksLikeBotBlock (resStatus res) (resContentType res) (resText res)
                       then \<lparr>result = fetchJsonViaCurl P (curlRuns env started),
                             markedPreferCurl = True, curlStarted = Suc started\<rparr>
                       else if looksLikeBotBlock (resStatus res) (resContentType res) (resText res)
                       then \<lparr>result = Inl toVintedBlockedError, markedPreferCurl = False,
                             curlStarted = started\<rparr>
                       else \<lparr>result = Inl (requestFailedMessage (resStatus res) (resText res)),
                             markedPreferCurl = False, curlStarted = started\<rparr>))
          else (case jsonParse P (resText res) of
                  Some v \<Rightarrow> \<lparr>result = Inr v, markedPreferCurl = False, curlStarted = 0\<rparr>
                | None \<Rightarrow>
                    \<lparr>result = Inl ''Failed to parse Vinted response.'', markedPreferCurl = False,
                     curlStarted = 0\<rparr>))"

text \<open>
  Sample transport data: a platform stand-in, an interstitial page answered with 403, a curl
  run that cannot connect, a curl run that gets the same page.  The stand-in parses nothing
  (no evaluation below reaches a parse that succeeds) and puts every URL on the host
  \<open>www.vinted.nl\<close> (the evaluations below use URLs of that host only).

  \<open>sampleUrlToString c b\<close> stands for \<open>new URL(c, b).toString()\<close>.  It is that for an absolute
  \<open>http\<close> or \<open>https\<close> URL \<open>c\<close> whose authority is a domain name of ASCII letters, digits, hyphens
  and dots (no userinfo, no port, not an IP address) and whose path, query and fragment hold
  only letters, digits and \<open>/ ? # = & - _\<close>: the URL parser lower-cases the scheme and the host,
  makes an empty path \<open>/\<close>, and leaves the rest as it is.  Only such URLs are evaluated below;
  on any other string the stand-in returns the string.
\<close>

definition isAuthorityEnd :: "char \<Rightarrow> bool" where
  "isAuthorityEnd c = (c = CHR ''/'' \<or> c = CHR ''?'' \<or> c = CHR ''#'')"

definition sampleUrlToString :: "string \<Rightarrow> string \<Rightarrow> string option" where
  "sampleUrlToString c b =
     (let lower = toLowerCase c;
          n = (if startsWith lower ''https://'' then 8
               else if startsWith lower ''http://'' then 7 else (0::nat))
      in if n = 0 then Some c
         else (let authority = takeWhile (\<lambda>x. \<not> isAuthorityEnd x) (drop n c);
                   rest = dropWhile (\<lambda>x. \<not> isAuthorityEnd x) (drop n c)
               in Some (toLowerCase (take n c) @ toLowerCase authority @
                        (if startsWith rest ''/'' then rest else ''/'' @ rest))))"

definition samplePlatform :: Platform where
  "samplePlatform =
     \<lparr>jsonParse = (\<lambda>t. None), jsonStringify = (\<lambda>v. []), numberToString = (\<lambda>r. []),
      urlToString = sampleUrlToString, bigIntOfString = (\<lambda>t. None),
      encodeURIComponent = (\<lambda>t. t), urlHostname = (\<lambda>u. Some ''www.vinted.nl''),
      urlOrigin = (\<lambda>u. Some ''https://www.vinted.nl''), toFixed2 = (\<lambda>r. [])\<rparr>"

definition challengePage :: FetchResponse where
  "challengePage =
     \<lparr>resStatus = 403, resContentType = Some ''text/html; charset=UTF-8'',
      resText = ''<!DOCTYPE html><html><head><title>Just a moment...</title></head></html>''\<rparr>"

definition curlNoConnect :: CurlRun where
  "curlNoConnect =
     \<lparr>exitCode = 7, stdout = [], stderr = ''curl: (7) Failed to connect to www.vinted.de''\<rparr>"

definition curlChallenge :: CurlRun where
  "curlChallenge =
     \<lparr>exitCode = 0,
      stdout = ''<!DOCTYPE html><html><head><title>Just a moment...</title></head></html>''
               @ [CHR 0x0A] @ ''403'',
      stderr = []\<rparr>"

section \<open>Session store: cookie jar and dynamic headers per session scope\<close>

text \<open>
  A \<open>Map<string, string>\<close> and a \<open>Record<string, string>\<close> are the lists of their entries in
  insertion order; \<open>entrySet\<close> is \<open>Map.set\<close> and the assignment \<open>o[k] = v\<close>: an existing key
  keeps its place, a new one goes last.  The two outer levels of the jar are maps from the
  scope key and from the host.
\<close>

type_synonym entries = "(string \<times> string) list"

fun entrySet :: "string \<Rightarrow> string \<Rightarrow> entries \<Rightarrow> entries" where
  "entrySet k v [] = [(k, v)]"
| "entrySet k v ((k', v') # xs) = (if k' = k then (k, v) # xs else (k', v') # entrySet k v xs)"

definition entryDelete :: "string \<Rightarrow> entries \<Rightarrow> entries" where
  "entryDelete k xs = filter (\<lambda>e. fst e \<noteq> k) xs"

definition spread :: "entries \<Rightarrow> entries \<Rightarrow> entries" where
  "spread target source = foldl (\<lambda>acc e. entrySet (fst e) (snd e) acc) target source"

type_synonym scopedStore = "string \<rightharpoonup> (string \<rightharpoonup> entries)"

record SessionStore =
  cookieJarByScopeHost :: scopedStore
  dynamicHeadersByScopeHost :: scopedStore

definition DEFAULT_SESSION_SCOPE :: string where
  "DEFAULT_SESSION_SCOPE = ''__global__''"

definition DEFAULT_CSRF_TOKEN :: string where
  "DEFAULT_CSRF_TOKEN = ''75f6c9fa-dc8e-4e52-a000-e09dd4084b3e''"

definition normalizeSessionScope :: "string option \<Rightarrow> string" where
  "normalizeSessionScope sessionScope =
     (case sessionScope of
        None \<Rightarrow> DEFAULT_SESSION_SCOPE
      | Some sc \<Rightarrow> if trim sc \<noteq> [] then trim sc else DEFAULT_SESSION_SCOPE)"

definition readHeaderCaseInsensitive :: "entries \<Rightarrow> string \<Rightarrow> string option" where
  "readHeaderCaseInsensitive headers headerName =
     map_option snd (find (\<lambda>e. toLowerCase (fst e) = toLowerCase headerName) headers)"

definition setHeaderCaseInsensitive :: "entries \<Rightarrow> string \<Rightarrow> string \<Rightarrow> entries" where
  "setHeaderCaseInsensitive headers headerName v =
     (case find (\<lambda>e. toLowerCase (fst e) = toLowerCase headerName) headers of
        Some e \<Rightarrow> entrySet (fst e) v headers
      | None \<Rightarrow> entrySet headerName v headers)"

fun splitOn :: "char \<Rightarrow> string \<Rightarrow> string list" where
  "splitOn d [] = [[]]"
| "splitOn d (c # cs) =
     (if c = d then [] # splitOn d cs
      else (case splitOn d cs of p # ps \<Rightarrow> (c # p) # ps | [] \<Rightarrow> [[c]]))"

text \<open>
  One \<open>name=value\<close> part, as both cookie parsers take it apart: nothing when the part has no
  \<open>=\<close> after its first character or the trimmed name is empty.
\<close>

definition cookiePair :: "string \<Rightarrow> (string \<times> string) option" where
  "cookiePair part =
     (let eqIndex = length (takeWhile (\<lambda>c. c \<noteq> CHR ''='') part) in
      if CHR ''='' \<notin> set part \<or> eqIndex = 0 then None
      else (let name = trim (take eqIndex part); v = trim (drop (Suc eqIndex) part)
            in if name = [] then None else Some (name, v)))"

definition parseCookieHeader :: "string \<Rightarrow> entries" where
  "parseCookieHeader v =
     foldl (\<lambda>cookies rawPart.
              if trim rawPart = [] then cookies
              else (case cookiePair (trim rawPart) of
                      None \<Rightarrow> cookies
                    | Some (name, cookieValue) \<Rightarrow> entrySet name cookieValue cookies))
       [] (splitOn CHR '';'' v)"

fun joinWith :: "string \<Rightarrow> string list \<Rightarrow> string" where
  "joinWith sep [] = []"
| "joinWith sep [x] = x"
| "joinWith sep (x # y # ys) = x @ sep @ joinWith sep (y # ys)"

definition serializeCookieHeader :: "entries \<Rightarrow> string" where
  "serializeCookieHeader cookies = joinWith ''; '' (map (\<lambda>e. fst e @ ''='' @ snd e) cookies)"

definition mergeCookieHeaders :: "string option list \<Rightarrow> string option" where
  "mergeCookieHeaders vs =
     (let merged =
            foldl (\<lambda>m v. case v of
                            None \<Rightarrow> m
                          | Some c \<Rightarrow> if c = [] then m else spread m (parseCookieHeader c))
              [] vs
      in if merged = [] then None else Some (serializeCookieHeader merged))"

definition parseCookiePairFromSetCookie :: "string \<Rightarrow> (string \<times> string) option" where
  "parseCookiePairFromSetCookie setCookieHeader =
     (let pairPart = trim (takeWhile (\<lambda>c. c \<noteq> CHR '';'') setCookieHeader)
      in if pairPart = [] then None else cookiePair pairPart)"

definition resolveHostFromUrl :: "Platform \<Rightarrow> string \<Rightarrow> string option" where
  "resolveHostFromUrl P url = map_option toLowerCase (urlHostname P url)"

text \<open>
  \<open>getCookiesForScopeHost\<close> and \<open>getHeadersForScopeHost\<close> are the same function on the two
  stores.  The entries they return are the map a later \<open>set\<close> or \<open>delete\<close> changes in place;
  \<open>putScopeHost\<close> is that write through the reference.
\<close>

definition getForScopeHost ::
  "string \<Rightarrow> string \<Rightarrow> bool \<Rightarrow> scopedStore \<Rightarrow> entries option \<times> scopedStore" where
  "getForScopeHost sessionScope host create store =
     (case store sessionScope of
        None \<Rightarrow>
          if \<not> create then (None, store)
          else (Some [], store(sessionScope \<mapsto> [host \<mapsto> []]))
      | Some scopeMap \<Rightarrow>
          (case scopeMap host of
             None \<Rightarrow>
               if \<not> create then (None, store)
               else (Some [], store(sessionScope \<mapsto> scopeMap(host \<mapsto> [])))
           | Some found \<Rightarrow> (Some found, store)))"

definition putScopeHost :: "string \<Rightarrow> string \<Rightarrow> entries \<Rightarrow> scopedStore \<Rightarrow> scopedStore" where
  "putScopeHost sessionScope host es store =
     (case store sessionScope of
        None \<Rightarrow> store
      | Some scopeMap \<Rightarrow> store(sessionScope \<mapsto> scopeMap(host \<mapsto> es)))"

definition getCookieHeaderFromJar ::
  "Platform \<Rightarrow> string \<Rightarrow> string option \<Rightarrow> SessionStore \<Rightarrow> string option" where
  "getCookieHeaderFromJar P url sessionScope st =
     (case resolveHostFromUrl P url of
        None \<Rightarrow> None
      | Some host \<Rightarrow>
          if host = [] then None
          else (case fst (getForScopeHost (normalizeSessionScope sessionScope) host False
                            (cookieJarByScopeHost st)) of
                  None \<Rightarrow> None
                | Some cookies \<Rightarrow> if cookies = [] then None else Some (serializeCookieHeader cookies)))"

definition setCookiesInJar ::
  "Platform \<Rightarrow> string \<Rightarrow> string list \<Rightarrow> string option \<Rightarrow> SessionStore \<Rightarrow> SessionStore" where
  "setCookiesInJar P url setCookieHeaders sessionScope st =
     (case resolveHostFromUrl P url of
        None \<Rightarrow> st
      | Some host \<Rightarrow>
          if host = [] \<or> setCookieHeaders = [] then st
          else (let scopeKey = normalizeSessionScope sessionScope in
                case getForScopeHost scopeKey host True (cookieJarByScopeHost st) of
                  (None, jar) \<Rightarrow> st\<lparr>cookieJarByScopeHost := jar\<rparr>
                | (Some cookies, jar) \<Rightarrow>
                    st\<lparr>cookieJarByScopeHost :=
                         putScopeHost scopeKey host
                           (foldl (\<lambda>cs headerValue.
                                     case parseCookiePairFromSetCookie headerValue of
                                       None \<Rightarrow> cs
                                     | Some (name, v) \<Rightarrow>
                                         if v = [] then entryDelete name cs else entrySet name v cs)
                              cookies setCookieHeaders)
                           jar\<rparr>))"

definition getDynamicHeadersForUrl ::
  "Platform \<Rightarrow> string \<Rightarrow> string option \<Rightarrow> SessionStore \<Rightarrow> entries" where
  "getDynamicHeadersForUrl P url sessionScope st =
     (case resolveHostFromUrl P url of
        None \<Rightarrow> []
      | Some host \<Rightarrow>
          if host = [] then []
          else (case fst (getForScopeHost (normalizeSessionScope sessionScope) host False
                            (dynamicHeadersByScopeHost st)) of
                  None \<Rightarrow> []
                | Some headers \<Rightarrow> headers))"

definition setDynamicHeaderForUrl ::
  "Platform \<Rightarrow> string \<Rightarrow> string \<Rightarrow> string \<Rightarrow> string option \<Rightarrow> SessionStore \<Rightarrow> SessionStore" where
  "setDynamicHeaderForUrl P url headerName v sessionScope st =
     (case resolveHostFromUrl P url of
        None \<Rightarrow> st
      | Some host \<Rightarrow>
          if host = [] then st
          else (let scopeKey = normalizeSessionScope sessionScope in
                case getForScopeHost scopeKey host True (dynamicHeadersByScopeHost st) of
                  (None, store) \<Rightarrow> st\<lparr>dynamicHeadersByScopeHost := store\<rparr>
                | (Some headers, store) \<Rightarrow>
                    st\<lparr>dynamicHeadersByScopeHost :=
                         putScopeHost scopeKey host
                           (entrySet (toLowerCase headerName) v headers) store\<rparr>))"

text \<open>
  \<open>rememberResponseHeadersForSession\<close>; \<open>responseHeader\<close> is \<open>Headers.get\<close> of the response.
\<close>

definition rememberHeader ::
  "Platform \<Rightarrow> string \<Rightarrow> (string \<Rightarrow> string option) \<Rightarrow> string option \<Rightarrow> string
     \<Rightarrow> SessionStore \<Rightarrow> SessionStore" where
  "rememberHeader P url responseHeader sessionScope headerName st =
     (case responseHeader headerName of
        None \<Rightarrow> st
      | Some raw \<Rightarrow>
          if trim raw = [] then st
          else setDynamicHeaderForUrl P url headerName (trim raw) sessionScope st)"

definition rememberResponseHeadersForSession ::
  "Platform \<Rightarrow> string \<Rightarrow> (string \<Rightarrow> string option) \<Rightarrow> string option
     \<Rightarrow> SessionStore \<Rightarrow> SessionStore" where
  "rememberResponseHeadersForSession P url responseHeader sessionScope st =
     rememberHeader P url responseHeader sessionScope ''x-incognia-request-token''
       (rememberHeader P url responseHeader sessionScope ''x-v-udt''
          (rememberHeader P url responseHeader sessionScope ''x-anon-id'' st))"

text \<open>
  The environment variables the header construction reads, and \<open>process.env.X?.trim()\<close> with
  its truth test: \<open>None\<close> when the variable is unset or blank.
\<close>

record ProcessEnv =
  VINTED_INCOGNIA_REQUEST_TOKEN :: "string option"
  VINTED_COOKIE :: "string option"
  VINTED_ANON_ID :: "string option"
  VINTED_EXTRA_HEADERS_JSON :: "string option"
  VINTED_USER_AGENT :: "string option"

definition envTrim :: "string option \<Rightarrow> string option" where
  "envTrim v = (case v of None \<Rightarrow> None | Some x \<Rightarrow> if trim x = [] then None else Some (trim x))"

text \<open>\<open>a ?? b\<close>.\<close>

definition orElse :: "'a option \<Rightarrow> 'a option \<Rightarrow> 'a option" where
  "orElse a b = (case a of Some x \<Rightarrow> Some x | None \<Rightarrow> b)"

definition endsWith :: "string \<Rightarrow> string \<Rightarrow> bool" where
  "endsWith s suffix = startsWith (rev s) (rev suffix)"

definition resolveEnvRequestHeaders :: "Platform \<Rightarrow> ProcessEnv \<Rightarrow> entries" where
  "resolveEnvRequestHeaders P penv =
     (let r1 = (case envTrim (VINTED_INCOGNIA_REQUEST_TOKEN penv) of
                  Some t \<Rightarrow> entrySet ''x-incognia-request-token'' t []
                | None \<Rightarrow> []);
          cookie = envTrim (VINTED_COOKIE penv);
          r2 = (case cookie of Some c \<Rightarrow> entrySet ''cookie'' c r1 | None \<Rightarrow> r1);
          r3 = (case envTrim (VINTED_ANON_ID penv) of
                  Some a \<Rightarrow> entrySet ''x-anon-id'' a r2
                | None \<Rightarrow>
                    (case cookie of
                       None \<Rightarrow> r2
                     | Some c \<Rightarrow>
                         (case map_of (parseCookieHeader c) ''anon_id'' of
                            None \<Rightarrow> r2
                          | Some a \<Rightarrow> if a = [] then r2 else entrySet ''x-anon-id'' a r2)))
      in case envTrim (VINTED_EXTRA_HEADERS_JSON penv) of
           None \<Rightarrow> r3
         | Some raw \<Rightarrow>
             (case jsonParse P raw of
                Some (JObj es) \<Rightarrow>
                  foldl (\<lambda>r e. case snd e of
                                  JStr v \<Rightarrow> if trim (fst e) \<noteq> [] then entrySet (fst e) v r else r
                                | _ \<Rightarrow> r)
                    r3 es
              | _ \<Rightarrow> r3))"

definition resolveUserAgent :: "ProcessEnv \<Rightarrow> string" where
  "resolveUserAgent penv =
     (case envTrim (VINTED_USER_AGENT penv) of
        Some ua \<Rightarrow> ua
      | None \<Rightarrow>
          ''Mozilla/5.0 (Windows NT 10.0; Win64; x64) '' @
          ''AppleWebKit/537.36 (KHTML, like Gecko) Chrome/133.0.0.0 Safari/537.36'')"

definition resolveAcceptLanguage :: "Platform \<Rightarrow> string \<Rightarrow> string" where
  "resolveAcceptLanguage P url =
     (case urlHostname P url of
        None \<Rightarrow> ''en-US,en;q=0.9''
      | Some h \<Rightarrow>
         (let host = toLowerCase h in
          if endsWith host ''.nl'' then ''nl-NL,nl;q=0.9,en-US;q=0.8,en;q=0.7''
          else if endsWith host ''.de'' \<or> endsWith host ''.at''
          then ''de-DE,de;q=0.9,en-US;q=0.8,en;q=0.7''
          else if endsWith host ''.fr'' then ''fr-FR,fr;q=0.9,en-US;q=0.8,en;q=0.7''
          else if endsWith host ''.it'' then ''it-IT,it;q=0.9,en-US;q=0.8,en;q=0.7''
          else if endsWith host ''.es'' then ''es-ES,es;q=0.9,en-US;q=0.8,en;q=0.7''
          else if endsWith host ''.pl'' then ''pl-PL,pl;q=0.9,en-US;q=0.8,en;q=0.7''
          else if endsWith host ''.cz'' then ''cs-CZ,cs;q=0.9,en-US;q=0.8,en;q=0.7''
          else if endsWith host ''.pt'' then ''pt-PT,pt;q=0.9,en-US;q=0.8,en;q=0.7''
          else ''en-US,en;q=0.9''))"

record BuildInput =
  reqUrl :: string
  reqHeaders :: entries
  reqBody :: "json option"
  includeUserAgent :: bool
  reqSessionScope :: "string option"
  oauthTokenProfile :: bool

text \<open>
  \<open>ensureHeader\<close> is the repeated pattern \<open>if (v) setHeaderCaseInsensitive(resolved, name, v)\<close>.
  \<open>buildRequestHeadersFrom\<close> is \<open>buildRequestHeaders\<close> after its two reads of the session
  store, \<open>sessionHeaders\<close> and \<open>jarCookie\<close>.
\<close>

definition ensureHeader :: "string \<Rightarrow> string option \<Rightarrow> entries \<Rightarrow> entries" where
  "ensureHeader headerName v resolved =
     (case v of
        None \<Rightarrow> resolved
      | Some x \<Rightarrow> if x = [] then resolved else setHeaderCaseInsensitive resolved headerName x)"

definition buildRequestHeadersFrom ::
  "Platform \<Rightarrow> ProcessEnv \<Rightarrow> BuildInput \<Rightarrow> entries \<Rightarrow> string option \<Rightarrow> entries" where
  "buildRequestHeadersFrom P penv input sessionHeaders jarCookie =
     (let headers = reqHeaders input;
          envHeaders = (if oauthTokenProfile input then [] else resolveEnvRequestHeaders P penv);
          explicitCookie = readHeaderCaseInsensitive headers ''cookie'';
          sessionCookie = readHeaderCaseInsensitive sessionHeaders ''cookie'';
          envCookie = readHeaderCaseInsensitive envHeaders ''cookie'';
          mergedCookie = mergeCookieHeaders [jarCookie, envCookie, sessionCookie, explicitCookie];
          mergedCookiesMap = (case mergedCookie of
                                None \<Rightarrow> []
                              | Some c \<Rightarrow> if c = [] then [] else parseCookieHeader c);
          base =
            (if includeUserAgent input then [(''user-agent'', resolveUserAgent penv)] else []) @
            [(''accept'', ''application/json, text/plain, */*''),
             (''accept-language'', resolveAcceptLanguage P (reqUrl input))] @
            (case urlOrigin P (reqUrl input) of
               None \<Rightarrow> []
             | Some origin \<Rightarrow>
                 if origin = [] then []
                 else [(''origin'', origin), (''referer'', origin @ ''/'')]) @
            (case reqBody input of None \<Rightarrow> [] | Some b \<Rightarrow> [(''content-type'', ''application/json'')]);
          resolved0 = spread (spread (spread base envHeaders) sessionHeaders) headers;
          resolved1 = ensureHeader ''cookie'' mergedCookie resolved0
      in if oauthTokenProfile input then resolved1
         else (let resolved2 =
                     (case readHeaderCaseInsensitive resolved1 ''x-requested-with'' of
                        None \<Rightarrow> setHeaderCaseInsensitive resolved1 ''x-requested-with'' ''XMLHttpRequest''
                      | Some x \<Rightarrow>
                          if x = []
                          then setHeaderCaseInsensitive resolved1 ''x-requested-with'' ''XMLHttpRequest''
                          else resolved1);
                   anonId =
                     orElse (readHeaderCaseInsensitive headers ''x-anon-id'')
                       (orElse (readHeaderCaseInsensitive sessionHeaders ''x-anon-id'')
                          (orElse (readHeaderCaseInsensitive envHeaders ''x-anon-id'')
                             (map_of mergedCookiesMap ''anon_id'')));
                   resolved3 = ensureHeader ''x-anon-id'' anonId resolved2;
                   vUdt =
                     orElse (readHeaderCaseInsensitive headers ''x-v-udt'')
                       (orElse (readHeaderCaseInsensitive sessionHeaders ''x-v-udt'')
                          (map_of mergedCookiesMap ''v_udt''));
                   resolved4 = ensureHeader ''x-v-udt'' vUdt resolved3;
                   csrfToken =
                     orElse (readHeaderCaseInsensitive headers ''x-csrf-token'')
                       (orElse (readHeaderCaseInsensitive sessionHeaders ''x-csrf-token'')
                          (orElse (readHeaderCaseInsensitive envHeaders ''x-csrf-token'')
                             (Some DEFAULT_CSRF_TOKEN)));
                   resolved5 = ensureHeader ''x-csrf-token'' csrfToken resolved4;
                   priority =
                     orElse (readHeaderCaseInsensitive headers ''priority'')
                       (orElse (readHeaderCaseInsensitive sessionHeaders ''priority'')
                          (orElse (readHeaderCaseInsensitive envHeaders ''priority'')
                             (Some ''u=3'')))
               in ensureHeader ''priority'' priority resolved5))"

definition buildRequestHeaders ::
  "Platform \<Rightarrow> ProcessEnv \<Rightarrow> BuildInput \<Rightarrow> SessionStore \<Rightarrow> entries" where
  "buildRequestHeaders P penv input st =
     buildRequestHeadersFrom P penv input
       (if oauthTokenProfile input then []
        else getDynamicHeadersForUrl P (reqUrl input) (reqSessionScope input) st)
       (if oauthTokenProfile input then None
        else getCookieHeaderFromJar P (reqUrl input) (reqSessionScope input) st)"

text \<open>Sample session data: the capture of the isolation test, an empty store, no environment.\<close>

definition emptyStore :: SessionStore where
  "emptyStore = \<lparr>cookieJarByScopeHost = Map.empty, dynamicHeadersByScopeHost = Map.empty\<rparr>"

definition noEnv :: ProcessEnv where
  "noEnv =
     \<lparr>VINTED_INCOGNIA_REQUEST_TOKEN = None, VINTED_COOKIE = None, VINTED_ANON_ID = None,
      VINTED_EXTRA_HEADERS_JSON = None, VINTED_USER_AGENT = None\<rparr>"

definition toggleUrl :: string where
  "toggleUrl = ''https://www.vinted.nl/api/v2/user_favourites/toggle''"

definition sampleRequest :: "string option \<Rightarrow> BuildInput" where
  "sampleRequest sc =
     \<lparr>reqUrl = toggleUrl, reqHeaders = [], reqBody = None, includeUserAgent = True,
      reqSessionScope = sc, oauthTokenProfile = False\<rparr>"

text \<open>
  \<open>sameReads P penv sc st st'\<close>: every read of the session store under the scope \<open>sc\<close> gives
  the same in \<open>st'\<close> as in \<open>st\<close>: the cookie header of the jar, the dynamic headers, and the
  headers built for a request.
\<close>

definition sameReads ::
  "Platform \<Rightarrow> ProcessEnv \<Rightarrow> string option \<Rightarrow> SessionStore \<Rightarrow> SessionStore \<Rightarrow> bool" where
  "sameReads P penv sc st st' \<longleftrightarrow>
     (\<forall>url. getCookieHeaderFromJar P url sc st' = getCookieHeaderFromJar P url sc st
         \<and> getDynamicHeadersForUrl P url sc st' = getDynamicHeadersForUrl P url sc st)
     \<and> (\<forall>input. reqSessionScope input = sc \<longrightarrow>
           buildRequestHeaders P penv input st' = buildRequestHeaders P penv input st)"

section \<open>Reading response payloads\<close>

text \<open>
  \<open>propOf v k\<close> is the property read \<open>v.k\<close> on a value that is neither \<open>null\<close> nor \<open>undefined\<close>, for
  the property names the client reads: own properties of an object, nothing on an array, a
  string, a number or a boolean (none of the names is an index, \<open>length\<close> or inherited).
  \<open>chain\<close> is the optional read \<open>v?.k\<close>, \<open>elemAt\<close> the read \<open>v[0]\<close> of an element.
\<close>

fun propOf :: "json \<Rightarrow> string \<Rightarrow> json option" where
  "propOf (JObj es) k = map_of es k"
| "propOf v k = None"

definition chain :: "json option \<Rightarrow> string \<Rightarrow> json option" where
  "chain v k = (case v of None \<Rightarrow> None | Some JNull \<Rightarrow> None | Some x \<Rightarrow> propOf x k)"


definition parseStatusCode :: "json option \<Rightarrow> rat option" where
  "parseStatusCode v =
     (case v of
        Some (JNum n) \<Rightarrow> Some n
      | Some (JStr t) \<Rightarrow> map_option of_int (parseInt10 t)
      | _ \<Rightarrow> None)"

definition shouldRetryWithAuthorization :: "string \<Rightarrow> bool" where
  "shouldRetryWithAuthorization message =
     (let lower = toLowerCase message in
        includesStr lower ''(401)'' \<or> includesStr lower ''(403)'' \<or>
        includesStr lower ''access_denied'')"

definition isExplicitPayloadErrorCode :: "json option \<Rightarrow> bool" where
  "isExplicitPayloadErrorCode v =
     (case v of
        Some (JNum n) \<Rightarrow> n \<noteq> 0
      | Some (JStr t) \<Rightarrow>
          (let normalized = toLowerCase (trim t) in
           if normalized = [] then False
           else if normalized = ''0'' \<or> normalized = ''ok'' \<or> normalized = ''success'' then False
           else (case parseInt10 normalized of Some parsed \<Rightarrow> parsed \<noteq> 0 | None \<Rightarrow> True))
      | _ \<Rightarrow> False)"

text \<open>\<open>pushMessage\<close> on the list \<open>parts\<close>; the set \<open>seenParts\<close> holds what \<open>parts\<close> holds.\<close>

definition pushMessage :: "Platform \<Rightarrow> json option \<Rightarrow> string list \<Rightarrow> string list" where
  "pushMessage P v parts =
     (let trimmed = (case v of
                       Some (JNum n) \<Rightarrow> numberToString P n
                     | Some (JStr t) \<Rightarrow> trim t
                     | _ \<Rightarrow> [])
      in if trimmed = [] \<or> trimmed \<in> set parts then parts else parts @ [trimmed])"

definition pushFromObject :: "Platform \<Rightarrow> json \<Rightarrow> string list \<Rightarrow> string list" where
  "pushFromObject P v parts =
     pushMessage P (propOf v ''code'')
       (pushMessage P (propOf v ''title'')
          (pushMessage P (propOf v ''message_code'')
             (pushMessage P (propOf v ''message'') parts)))"

definition isObjectValue :: "json \<Rightarrow> bool" where
  "isObjectValue v = (case v of JObj es \<Rightarrow> True | JArr xs \<Rightarrow> True | _ \<Rightarrow> False)"

definition extractErrorsPayloadMessage :: "Platform \<Rightarrow> json \<Rightarrow> string option" where
  "extractErrorsPayloadMessage P payload =
     (if \<not> isObjectValue payload then None
      else
       (let raw = payload;
            hasErrorsField = (propOf raw ''errors'' \<noteq> None);
            parts0 =
              (case propOf raw ''errors'' of
                 Some (JArr errors) \<Rightarrow>
                   foldl (\<lambda>parts entry.
                            case entry of
                              JStr t \<Rightarrow> pushMessage P (Some entry) parts
                            | _ \<Rightarrow> if isObjectValue entry then pushFromObject P entry parts else parts)
                     [] (take 3 errors)
               | Some (JStr t) \<Rightarrow> pushMessage P (Some (JStr t)) []
               | Some (JObj es) \<Rightarrow> pushFromObject P (JObj es) []
               | _ \<Rightarrow> []);
            status = parseStatusCode (propOf raw ''status'');
            hasTopLevelCodeError = isExplicitPayloadErrorCode (propOf raw ''code'');
            hasTopLevelMessageCodeError = isExplicitPayloadErrorCode (propOf raw ''message_code'');
            hasErrorField = (case propOf raw ''error'' of Some (JStr t) \<Rightarrow> trim t \<noteq> [] | _ \<Rightarrow> False);
            shouldTreatAsError =
              (hasErrorsField \<or> hasErrorField \<or>
               (case status of Some n \<Rightarrow> n \<ge> 400 | None \<Rightarrow> False) \<or>
               hasTopLevelCodeError \<or> hasTopLevelMessageCodeError)
        in if \<not> shouldTreatAsError then None
           else
            (let parts =
                   pushMessage P (propOf raw ''code'')
                     (pushMessage P (propOf raw ''message_code'')
                        (pushMessage P (propOf raw ''message'')
                           (pushMessage P (propOf raw ''error_description'')
                              (pushMessage P (propOf raw ''error'') parts0))));
                 bodyMessage =
                   (if parts \<noteq> [] then joinWith '' | '' parts
                    else if take 220 (jsonStringify P raw) \<noteq> [] then take 220 (jsonStringify P raw)
                    else ''Unknown API error payload.'')
             in case status of
                  Some n \<Rightarrow>
                    Some (''Vinted request failed ('' @ numberToString P n @ ''). '' @ bodyMessage)
                | None \<Rightarrow> Some (''Vinted request failed (payload error). '' @ bodyMessage))))"

section \<open>Checkout URL and purchase id of a build-checkout payload\<close>

definition parseBigintCandidate :: "Platform \<Rightarrow> json option \<Rightarrow> int option" where
  "parseBigintCandidate P v =
     (case v of
        Some (JNum n) \<Rightarrow> if of_int \<lfloor>n\<rfloor> = n then Some \<lfloor>n\<rfloor> else None
      | Some (JStr t) \<Rightarrow> if trim t = [] then None else bigIntOfString P (trim t)
      | _ \<Rightarrow> None)"

definition normalizeCheckoutUrlCandidate :: "Platform \<Rightarrow> string \<Rightarrow> string \<Rightarrow> string" where
  "normalizeCheckoutUrlCandidate P baseUrl candidate =
     (let trimmed = trim candidate in
      if trimmed = [] then trimmed
      else (case urlToString P trimmed (baseUrl @ ''/'') of Some u \<Rightarrow> u | None \<Rightarrow> trimmed))"

definition looksLikeCheckoutUrl :: "string \<Rightarrow> bool" where
  "looksLikeCheckoutUrl v =
     (let lower = toLowerCase v in
        includesStr lower ''/checkout'' \<or> includesStr lower ''purchase_id='')"

definition isCheckoutUrlKey :: "string \<Rightarrow> bool" where
  "isCheckoutUrlKey normalizedKey =
     (normalizedKey = ''checkout_url'' \<or> normalizedKey = ''checkouturl'' \<or>
      normalizedKey = ''redirect_url'' \<or> normalizedKey = ''redirecturl'' \<or>
      normalizedKey = ''payment_url'' \<or> normalizedKey = ''paymenturl'' \<or>
      normalizedKey = ''web_url'' \<or> normalizedKey = ''weburl'' \<or>
      normalizedKey = ''checkout_link'' \<or> normalizedKey = ''checkoutlink'')"

text \<open>
  \<open>findNestedCheckoutUrl\<close>: the value, then the loop over the entries of an array, then the
  loop over the properties of an object, each with the depth of the enclosing call.
\<close>

fun findNestedCheckoutUrl :: "json \<Rightarrow> int \<Rightarrow> string option"
  and findNestedCheckoutUrl_array :: "json list \<Rightarrow> int \<Rightarrow> string option"
  and findNestedCheckoutUrl_object :: "(string \<times> json) list \<Rightarrow> int \<Rightarrow> string option" where
  "findNestedCheckoutUrl JNull depth = None"
| "findNestedCheckoutUrl (JBool b) depth = None"
| "findNestedCheckoutUrl (JNum n) depth = None"
| "findNestedCheckoutUrl JNonFinite depth = None"
| "findNestedCheckoutUrl (JStr t) depth =
     (if depth < 0 then None
      else if trim t \<noteq> [] \<and> looksLikeCheckoutUrl (trim t) then Some (trim t) else None)"
| "findNestedCheckoutUrl (JArr xs) depth =
     (if depth < 0 then None else findNestedCheckoutUrl_array xs depth)"
| "findNestedCheckoutUrl (JObj es) depth =
     (if depth < 0 then None else findNestedCheckoutUrl_object es depth)"
| "findNestedCheckoutUrl_array [] depth = None"
| "findNestedCheckoutUrl_array (entry # rest) depth =
     (case findNestedCheckoutUrl entry (depth - 1) of
        Some nested \<Rightarrow> Some nested
      | None \<Rightarrow> findNestedCheckoutUrl_array rest depth)"
| "findNestedCheckoutUrl_object [] depth = None"
| "findNestedCheckoutUrl_object (kv # rest) depth =
     (let normalizedKey = toLowerCase (fst kv);
          direct = (case snd kv of
                      JStr t \<Rightarrow>
                        if trim t \<noteq> [] \<and>
                           (isCheckoutUrlKey normalizedKey \<or>
                            (normalizedKey = ''url'' \<and> looksLikeCheckoutUrl (trim t)))
                        then Some (trim t) else None
                    | _ \<Rightarrow> None);
          blank = (case snd kv of JStr t \<Rightarrow> trim t = [] | _ \<Rightarrow> False)
      in case direct of
           Some found \<Rightarrow> Some found
         | None \<Rightarrow>
             if blank then findNestedCheckoutUrl_object rest depth
             else (case findNestedCheckoutUrl (snd kv) (depth - 1) of
                     Some nested \<Rightarrow> Some nested
                   | None \<Rightarrow> findNestedCheckoutUrl_object rest depth))"

definition isPurchaseIdKey :: "string \<Rightarrow> bool" where
  "isPurchaseIdKey normalizedKey =
     (normalizedKey = ''purchase_id'' \<or> normalizedKey = ''purchaseid'' \<or>
      normalizedKey = ''checkout_id'' \<or> normalizedKey = ''checkoutid'')"

fun findNestedPurchaseId :: "Platform \<Rightarrow> json \<Rightarrow> string option \<Rightarrow> int \<Rightarrow> int option"
  and findNestedPurchaseId_array ::
    "Platform \<Rightarrow> json list \<Rightarrow> string option \<Rightarrow> int \<Rightarrow> int option"
  and findNestedPurchaseId_object ::
    "Platform \<Rightarrow> (string \<times> json) list \<Rightarrow> string option \<Rightarrow> int \<Rightarrow> int option" where
  "findNestedPurchaseId P (JArr xs) parentKey depth =
     (if depth < 0 then None else findNestedPurchaseId_array P xs parentKey depth)"
| "findNestedPurchaseId P (JObj es) parentKey depth =
     (if depth < 0 then None else findNestedPurchaseId_object P es parentKey depth)"
| "findNestedPurchaseId P JNull parentKey depth = None"
| "findNestedPurchaseId P (JBool b) parentKey depth = None"
| "findNestedPurchaseId P (JNum n) parentKey depth = None"
| "findNestedPurchaseId P JNonFinite parentKey depth = None"
| "findNestedPurchaseId P (JStr t) parentKey depth = None"
| "findNestedPurchaseId_array P [] parentKey depth = None"
| "findNestedPurchaseId_array P (entry # rest) parentKey depth =
     (case findNestedPurchaseId P entry parentKey (depth - 1) of
        Some nested \<Rightarrow> Some nested
      | None \<Rightarrow> findNestedPurchaseId_array P rest parentKey depth)"
| "findNestedPurchaseId_object P [] parentKey depth = None"
| "findNestedPurchaseId_object P (kv # rest) parentKey depth =
     (let normalizedKey = toLowerCase (fst kv);
          byKey = (if isPurchaseIdKey normalizedKey
                   then parseBigintCandidate P (Some (snd kv)) else None);
          byId = (if normalizedKey = ''id'' \<and>
                     (parentKey = Some ''purchase'' \<or> parentKey = Some ''checkout'')
                  then parseBigintCandidate P (Some (snd kv)) else None)
      in case byKey of
           Some parsed \<Rightarrow> Some parsed
         | None \<Rightarrow>
            (case byId of
               Some parsed \<Rightarrow> Some parsed
             | None \<Rightarrow>
                (case findNestedPurchaseId P (snd kv) (Some normalizedKey) (depth - 1) of
                   Some nested \<Rightarrow> Some nested
                 | None \<Rightarrow> findNestedPurchaseId_object P rest parentKey depth)))"

definition extractPurchaseIdFromCheckoutPayload :: "Platform \<Rightarrow> json \<Rightarrow> int option" where
  "extractPurchaseIdFromCheckoutPayload P payload =
     (let raw = Some payload in
      orElse (parseBigintCandidate P (chain (chain raw ''checkout'') ''id''))
     (orElse (parseBigintCandidate P (chain (chain raw ''checkout'') ''purchase_id''))
     (orElse (parseBigintCandidate P (chain (chain (chain raw ''checkout'') ''purchase'') ''id''))
     (orElse (parseBigintCandidate P (chain raw ''checkout_id''))
     (orElse (parseBigintCandidate P (chain raw ''purchase_id''))
     (orElse (parseBigintCandidate P (chain (chain raw ''purchase'') ''id''))
     (orElse (parseBigintCandidate P (chain (chain raw ''purchase'') ''purchase_id''))
     (orElse (findNestedPurchaseId P payload None 6)
             (parseBigintCandidate P (chain raw ''id''))))))))))"

definition directUrlCandidates :: "json \<Rightarrow> json option list" where
  "directUrlCandidates payload =
     (let raw = Some payload in
      [chain raw ''checkout_url'',
       chain raw ''checkoutUrl'',
       chain (chain raw ''checkout'') ''checkout_url'',
       chain (chain raw ''checkout'') ''checkoutUrl'',
       chain (chain raw ''checkout'') ''url'',
       chain (chain raw ''checkout'') ''web_url'',
       chain (chain raw ''checkout'') ''webUrl'',
       chain (chain raw ''purchase'') ''checkout_url'',
       chain (chain raw ''purchase'') ''checkoutUrl'',
       chain (chain raw ''purchase'') ''url'',
       chain (chain raw ''next_step'') ''url'',
       chain (chain raw ''nextStep'') ''url'',
       chain (chain raw ''payment'') ''checkout_url'',
       chain (chain raw ''payment'') ''checkoutUrl'',
       chain (chain raw ''payment'') ''url'',
       chain raw ''url''])"

text \<open>The first candidate that is a string with something but white space in it.\<close>

fun firstUrlCandidate :: "json option list \<Rightarrow> string option" where
  "firstUrlCandidate [] = None"
| "firstUrlCandidate (c # cs) =
     (case c of
        Some (JStr t) \<Rightarrow> if trim t \<noteq> [] then Some t else firstUrlCandidate cs
      | _ \<Rightarrow> firstUrlCandidate cs)"

text \<open>
  The URL the last branch of \<open>parseCheckoutUrl\<close> builds; \<open>URLSearchParams\<close> leaves the digits
  and the sign of the two ids as they are.
\<close>

definition synthesizedCheckoutUrl :: "string \<Rightarrow> int \<Rightarrow> int \<Rightarrow> string" where
  "synthesizedCheckoutUrl baseUrl purchaseId itemId =
     baseUrl @ ''/checkout?'' @ ''purchase_id='' @ showInt purchaseId @
     ''&order_id='' @ showInt itemId @ ''&order_type=transaction''"

definition parseCheckoutUrl :: "Platform \<Rightarrow> string \<Rightarrow> int \<Rightarrow> json \<Rightarrow> string option" where
  "parseCheckoutUrl P baseUrl itemId payload =
     (case firstUrlCandidate (directUrlCandidates payload) of
        Some candidate \<Rightarrow> Some (normalizeCheckoutUrlCandidate P baseUrl candidate)
      | None \<Rightarrow>
         (case findNestedCheckoutUrl payload 6 of
            Some nestedCheckoutUrl \<Rightarrow>
              Some (normalizeCheckoutUrlCandidate P baseUrl nestedCheckoutUrl)
          | None \<Rightarrow>
             (case extractPurchaseIdFromCheckoutPayload P payload of
                Some purchaseId \<Rightarrow> Some (synthesizedCheckoutUrl baseUrl purchaseId itemId)
              | None \<Rightarrow> None)))"

section \<open>Action client: favourite toggle, checkout build, offer\<close>

text \<open>
  An action calls \<open>fetchJson\<close> one or more times.  What each call returns is the network's
  answer: \<open>net calls input\<close> is the result of the call with argument \<open>input\<close> after the calls of
  \<open>calls\<close>, and each call is appended to that list.  The warm-up \<open>GET\<close> of the site root goes to
  \<open>fetch\<close> directly, not through \<open>fetchJson\<close>, and is not in the list.
\<close>

record FetchJsonInput =
  fjUrl :: string
  fjMethod :: string
  fjHeaders :: entries
  fjBody :: "json option"
  fjSessionScope :: "string option"

type_synonym Net = "FetchJsonInput list \<Rightarrow> FetchJsonInput \<Rightarrow> json Result"

definition callFetchJson ::
  "Net \<Rightarrow> FetchJsonInput \<Rightarrow> FetchJsonInput list \<Rightarrow> json Result \<times> FetchJsonInput list" where
  "callFetchJson net input calls = (net calls input, calls @ [input])"

definition baseUrlForRegion :: "VintedRegion \<Rightarrow> string" where
  "baseUrlForRegion r =
     (case r of
        region_de \<Rightarrow> ''https://www.vinted.de'' | region_at \<Rightarrow> ''https://www.vinted.at''
      | region_fr \<Rightarrow> ''https://www.vinted.fr'' | region_it \<Rightarrow> ''https://www.vinted.it''
      | region_es \<Rightarrow> ''https://www.vinted.es'' | region_nl \<Rightarrow> ''https://www.vinted.nl''
      | region_pl \<Rightarrow> ''https://www.vinted.pl'' | region_cz \<Rightarrow> ''https://www.vinted.cz''
      | region_pt \<Rightarrow> ''https://www.vinted.pt'')"

definition encodeCookieValue :: "Platform \<Rightarrow> string \<Rightarrow> string" where
  "encodeCookieValue P v = encodeURIComponent P (trim v)"

definition buildWebSessionCookieHeader :: "Platform \<Rightarrow> string \<Rightarrow> string option \<Rightarrow> string" where
  "buildWebSessionCookieHeader P accessTok refreshTok =
     joinWith ''; ''
       ([''access_token_web='' @ encodeCookieValue P accessTok] @
        (case refreshTok of
           None \<Rightarrow> []
         | Some r \<Rightarrow>
             if trim r = [] then []
             else [''refresh_token_web='' @ encodeCookieValue P (trim r)]))"

definition buildActionAuthHeaders ::
  "Platform \<Rightarrow> string \<Rightarrow> string option \<Rightarrow> bool \<Rightarrow> entries" where
  "buildActionAuthHeaders P accessTok refreshTok includeAuthorization =
     [(''cookie'', buildWebSessionCookieHeader P accessTok refreshTok)] @
     (if includeAuthorization then [(''authorization'', ''Bearer '' @ accessTok)] else [])"

text \<open>
  The input of an action; \<open>Number(itemId)\<close> is the id itself (ids are below \<open>2 ^ 53\<close>).
  \<open>pickupPoint\<close> is read by \<open>buildCheckout\<close>, \<open>amount\<close> and \<open>currencyCode\<close> by \<open>sendOffer\<close>.
\<close>

record ActionInput =
  actRegion :: VintedRegion
  actAccessToken :: string
  actRefreshToken :: "string option"
  actItemId :: int
  actSessionKey :: "string option"
  pickupPointArg :: "string option"
  amount :: rat
  currencyCode :: string

definition actionRequest ::
  "Platform \<Rightarrow> ActionInput \<Rightarrow> string \<Rightarrow> json \<Rightarrow> bool \<Rightarrow> FetchJsonInput" where
  "actionRequest P input url body includeAuthorization =
     \<lparr>fjUrl = url, fjMethod = ''POST'',
      fjHeaders = buildActionAuthHeaders P (actAccessToken input) (actRefreshToken input)
                    includeAuthorization,
      fjBody = Some body, fjSessionScope = actSessionKey input\<rparr>"

text \<open>
  The pattern all three actions share: the request without \<open>Authorization\<close>, and once more
  with it when the first attempt fails with 401, 403 or \<open>access_denied\<close>.
\<close>

definition fetchWithAuthorizationRetry ::
  "Platform \<Rightarrow> Net \<Rightarrow> ActionInput \<Rightarrow> string \<Rightarrow> json \<Rightarrow> FetchJsonInput list
     \<Rightarrow> json Result \<times> FetchJsonInput list" where
  "fetchWithAuthorizationRetry P net input url body calls =
     (case callFetchJson net (actionRequest P input url body False) calls of
        (Inl message, calls1) \<Rightarrow>
          if shouldRetryWithAuthorization message
          then callFetchJson net (actionRequest P input url body True) calls1
          else (Inl message, calls1)
      | (Inr v, calls1) \<Rightarrow> (Inr v, calls1))"










definition shouldPrimeCheckoutSessionFromError :: "string \<Rightarrow> bool" where
  "shouldPrimeCheckoutSessionFromError message =
     (let lower = toLowerCase message in
        includesStr lower ''(403)'' \<or> includesStr lower ''cloudflare'' \<or>
        includesStr lower ''captcha'' \<or> includesStr lower ''blockiert'' \<or>
        includesStr lower ''access_denied'')"

text \<open>What \<open>buildCheckout\<close> resolves to: an object with the one field \<open>checkoutUrl\<close>.\<close>

record CheckoutBuild =
  checkoutUrl :: "string option"

definition buildCheckoutUrl :: "ActionInput \<Rightarrow> string" where
  "buildCheckoutUrl input = baseUrlForRegion (actRegion input) @ ''/api/v2/purchases/checkout/build''"

definition preflightUrl :: "ActionInput \<Rightarrow> string" where
  "preflightUrl input =
     baseUrlForRegion (actRegion input) @
     ''/api/v2/catalog/items?page=1&per_page=1&order=newest_first''"

definition buildCheckoutBody :: "ActionInput \<Rightarrow> json" where
  "buildCheckoutBody input =
     JObj ([(''purchase_items'',
             JArr [JObj [(''id'', JNum (of_int (actItemId input))), (''type'', JStr ''transaction'')]])]
           @ (case pickupPointArg input of
                None \<Rightarrow> []
              | Some pp \<Rightarrow> [(''pickup_point'', JStr pp)]))"

definition buildCheckout ::
  "Platform \<Rightarrow> Net \<Rightarrow> ActionInput \<Rightarrow> FetchJsonInput list
     \<Rightarrow> CheckoutBuild Result \<times> FetchJsonInput list" where
  "buildCheckout P net input calls =
     (let url = buildCheckoutUrl input;
          requestBody = buildCheckoutBody input;
          (json1, calls1) = fetchWithAuthorizationRetry P net input url requestBody calls;
          (json2, calls2) =
            (case json1 of
               Inl message \<Rightarrow>
                 if shouldPrimeCheckoutSessionFromError message
                 then (let (preflight, callsp) =
                             callFetchJson net
                               \<lparr>fjUrl = preflightUrl input, fjMethod = ''GET'',
                                fjHeaders = [(''authorization'', ''Bearer '' @ actAccessToken input)],
                                fjBody = None, fjSessionScope = actSessionKey input\<rparr>
                               calls1
                       in callFetchJson net (actionRequest P input url requestBody True) callsp)
                 else (json1, calls1)
             | Inr v \<Rightarrow> (json1, calls1))
      in case json2 of
           Inl message \<Rightarrow>
             if includesStr message ''captcha-delivery.com''
             then (Inr \<lparr>checkoutUrl = None\<rparr>, calls2)
             else (Inl message, calls2)
         | Inr payload \<Rightarrow>
             (case extractErrorsPayloadMessage P payload of
                Some payloadError \<Rightarrow> (Inl payloadError, calls2)
              | None \<Rightarrow>
                  (Inr \<lparr>checkoutUrl =
                          parseCheckoutUrl P (baseUrlForRegion (actRegion input))
                            (actItemId input) payload\<rparr>,
                   calls2)))"

text \<open>\<open>sendOfferRequest\<close>, the local function of \<open>sendOffer\<close>; \<open>()\<close> is \<open>{ sent: true }\<close>.\<close>

definition sendOfferRequest ::
  "Platform \<Rightarrow> Net \<Rightarrow> ActionInput \<Rightarrow> string \<Rightarrow> json \<Rightarrow> FetchJsonInput list
     \<Rightarrow> unit Result \<times> FetchJsonInput list" where
  "sendOfferRequest P net input url body calls =
     (case fetchWithAuthorizationRetry P net input url body calls of
        (Inl e, calls') \<Rightarrow> (Inl e, calls')
      | (Inr payload, calls') \<Rightarrow>
          (case extractErrorsPayloadMessage P payload of
             Some payloadError \<Rightarrow> (Inl payloadError, calls')
           | None \<Rightarrow> (Inr (), calls')))"

definition offerRequestsUrl :: "ActionInput \<Rightarrow> string" where
  "offerRequestsUrl input =
     baseUrlForRegion (actRegion input) @ ''/api/v2/transactions/'' @ showInt (actItemId input)
     @ ''/offer_requests''"

definition transactionOffersUrl :: "ActionInput \<Rightarrow> string" where
  "transactionOffersUrl input =
     baseUrlForRegion (actRegion input) @ ''/api/v2/transactions/'' @ showInt (actItemId input)
     @ ''/offers''"

definition legacyOffersUrl :: "ActionInput \<Rightarrow> string" where
  "legacyOffersUrl input = baseUrlForRegion (actRegion input) @ ''/api/v2/offers''"

definition offerRequestsBody :: "ActionInput \<Rightarrow> json" where
  "offerRequestsBody input =
     JObj [(''offer_request'',
            JObj [(''price'', JNum (amount input)), (''currency'', JStr (currencyCode input))])]"

definition transactionOffersBody :: "ActionInput \<Rightarrow> json" where
  "transactionOffersBody input =
     JObj [(''offer'',
            JObj [(''price'', JNum (amount input)), (''currency'', JStr (currencyCode input))])]"

definition legacyOffersBody :: "Platform \<Rightarrow> ActionInput \<Rightarrow> json" where
  "legacyOffersBody P input =
     JObj [(''item_id'', JStr (showInt (actItemId input))),
           (''amount'',
            JObj [(''amount'', JStr (toFixed2 P (amount input))),
                  (''currency_code'', JStr (currencyCode input))])]"

definition looksMoreSpecific :: "string \<Rightarrow> bool" where
  "looksMoreSpecific lowerMessage =
     (includesStr lowerMessage ''access_denied'' \<or> includesStr lowerMessage ''cloudflare'' \<or>
      includesStr lowerMessage ''captcha'' \<or> includesStr lowerMessage ''blockiert'')"

text \<open>The choice among the three errors at the end of \<open>sendOffer\<close>.\<close>

definition chooseOfferError :: "string \<Rightarrow> string \<Rightarrow> string \<Rightarrow> string" where
  "chooseOfferError modernError transactionError legacyError =
     (let modernMessage = toLowerCase modernError;
          transactionMessage = toLowerCase transactionError;
          legacyMessage = toLowerCase legacyError;
          endpointMessages = [modernMessage, transactionMessage, legacyMessage];
          hasSpecificAccessDeniedSignal =
            list_ex (\<lambda>message. includesStr message ''access_denied'') endpointMessages;
          hasSpecificBlockSignal =
            list_ex (\<lambda>message. includesStr message ''cloudflare'' \<or> includesStr message ''captcha''
                                 \<or> includesStr message ''blockiert'') endpointMessages;
          modernLooksMoreSpecific = looksMoreSpecific modernMessage;
          transactionLooksMoreSpecific = looksMoreSpecific transactionMessage
      in if modernLooksMoreSpecific \<and> \<not> includesStr legacyMessage ''access_denied''
         then modernError
         else if transactionLooksMoreSpecific \<and> \<not> includesStr legacyMessage ''access_denied''
         then transactionError
         else if hasSpecificAccessDeniedSignal \<or> hasSpecificBlockSignal
         then (if modernLooksMoreSpecific then modernError
               else if transactionLooksMoreSpecific then transactionError
               else legacyError)
         else legacyError)"

definition modernEndpointAttempt ::
  "Platform \<Rightarrow> Net \<Rightarrow> ActionInput \<Rightarrow> FetchJsonInput list
     \<Rightarrow> unit Result \<times> FetchJsonInput list" where
  "modernEndpointAttempt P net input calls =
     sendOfferRequest P net input (offerRequestsUrl input) (offerRequestsBody input) calls"

definition transactionOffersAttempt ::
  "Platform \<Rightarrow> Net \<Rightarrow> ActionInput \<Rightarrow> FetchJsonInput list
     \<Rightarrow> unit Result \<times> FetchJsonInput list" where
  "transactionOffersAttempt P net input calls =
     sendOfferRequest P net input (transactionOffersUrl input) (transactionOffersBody input) calls"

definition legacyEndpointAttempt ::
  "Platform \<Rightarrow> Net \<Rightarrow> ActionInput \<Rightarrow> FetchJsonInput list
     \<Rightarrow> unit Result \<times> FetchJsonInput list" where
  "legacyEndpointAttempt P net input calls =
     sendOfferRequest P net input (legacyOffersUrl input) (legacyOffersBody P input) calls"

definition sendOffer ::
  "Platform \<Rightarrow> Net \<Rightarrow> ActionInput \<Rightarrow> FetchJsonInput list
     \<Rightarrow> unit Result \<times> FetchJsonInput list" where
  "sendOffer P net input calls =
     (case modernEndpointAttempt P net input calls of
        (Inr sent, calls1) \<Rightarrow> (Inr sent, calls1)
      | (Inl modernError, calls1) \<Rightarrow>
         (case transactionOffersAttempt P net input calls1 of
            (Inr sent, calls2) \<Rightarrow> (Inr sent, calls2)
          | (Inl transactionError, calls2) \<Rightarrow>
             (case legacyEndpointAttempt P net input calls2 of
                (Inr sent, calls3) \<Rightarrow> (Inr sent, calls3)
              | (Inl legacyError, calls3) \<Rightarrow>
                  (Inl (chooseOfferError modernError transactionError legacyError), calls3))))"

text \<open>
  The endpoints an action called, in order, a repeated call of the same endpoint counted
  once: the URLs of the calls added to the list.
\<close>

definition endpointsCalled :: "FetchJsonInput list \<Rightarrow> FetchJsonInput list \<Rightarrow> string list" where
  "endpointsCalled before after = remdups_adj (map fjUrl (drop (length before) after))"



text \<open>
  Sample action data: an action input for item 88 in region \<open>nl\<close>; the message \<open>fetchJson\<close>
  gives for a 403 whose body names a captcha-delivery challenge; a network that answers the
  catalogue preflight with an empty page and every other request with that 403; a network
  that answers everything with the payload \<open>{"success": true}\<close>.
\<close>

definition sampleAction :: ActionInput where
  "sampleAction =
     \<lparr>actRegion = region_nl, actAccessToken = ''access-token'',
      actRefreshToken = Some ''refresh-token'', actItemId = 88, actSessionKey = Some ''user-88'',
      pickupPointArg = None, amount = 10, currencyCode = ''EUR''\<rparr>"

definition challengeUrl :: string where
  "challengeUrl = ''https://geo.captcha-delivery.com/captcha/?cid=test-persist''"

definition challengeBody :: string where
  "challengeBody = ''{\"url\":\"'' @ challengeUrl @ ''\"}''"

definition challengeResponse :: FetchResponse where
  "challengeResponse =
     \<lparr>resStatus = 403, resContentType = Some ''application/json'', resText = challengeBody\<rparr>"

definition challengeMessage :: string where
  "challengeMessage = ''Vinted request failed (403). '' @ challengeBody"

definition challengeNet :: Net where
  "challengeNet calls input =
     (if fjUrl input = preflightUrl sampleAction then Inr (JObj [(''items'', JArr [])])
      else Inl challengeMessage)"


text \<open>
  More sample data: the payloads of the two checkout-URL tests, a checkout URL with its host
  in capitals, a checkout URL with no path, a network that answers every request with 404.
\<close>

definition checkoutIdPayload :: json where
  "checkoutIdPayload = JObj [(''checkout'', JObj [(''id'', JNum 99887766)])]"

definition directUrl :: string where
  "directUrl = ''https://www.vinted.nl/checkout?purchase_id=1''"

definition directUrlPayload :: json where
  "directUrlPayload = JObj [(''checkout_url'', JStr directUrl)]"

definition upperHostUrlPayload :: json where
  "upperHostUrlPayload =
     JObj [(''checkout_url'', JStr ''https://WWW.VINTED.NL/checkout?purchase_id=1'')]"

definition noPathUrlPayload :: json where
  "noPathUrlPayload = JObj [(''checkout_url'', JStr ''https://www.vinted.nl?purchase_id=1'')]"

definition notFoundMessage :: string where
  "notFoundMessage = ''Vinted request failed (404). not found''"

definition notFoundNet :: Net where
  "notFoundNet calls input = Inl notFoundMessage"

text \<open>
  Networks for the offer: \<open>closedOfferNet\<close> answers the \<open>offer_requests\<close> endpoint with status 200
  and the payload \<open>{"errors": ["offer requests are closed"]}\<close>, the \<open>offers\<close> endpoint of the
  transaction with 404, and the global endpoint with 401 to a request without
  \<open>Authorization\<close> and with 422 to one with it.  \<open>secondOfferNet\<close> answers the first endpoint in
  the same way and every other request with the payload \<open>{}\<close>.  \<open>captchaOfferNet\<close> answers the
  first endpoint with a message that names a captcha and every other request with 404.
\<close>

definition offersClosedPayload :: json where
  "offersClosedPayload = JObj [(''errors'', JArr [JStr ''offer requests are closed''])]"

definition offersClosedMessage :: string where
  "offersClosedMessage = ''Vinted request failed (payload error). offer requests are closed''"

definition unauthorizedMessage :: string where
  "unauthorizedMessage = ''Vinted request failed (401). unauthorized''"

definition priceTooLowMessage :: string where
  "priceTooLowMessage = ''Vinted request failed (422). price is too low''"

definition captchaMessage :: string where
  "captchaMessage = ''Vinted request failed (429). Captcha required''"

definition closedOfferNet :: Net where
  "closedOfferNet calls input =
     (if fjUrl input = offerRequestsUrl sampleAction then Inr offersClosedPayload
      else if fjUrl input = transactionOffersUrl sampleAction then Inl notFoundMessage
      else if map_of (fjHeaders input) ''authorization'' = None then Inl unauthorizedMessage
      else Inl priceTooLowMessage)"

definition secondOfferNet :: Net where
  "secondOfferNet calls input =
     (if fjUrl input = offerRequestsUrl sampleAction then Inr offersClosedPayload
      else Inr (JObj []))"

definition captchaOfferNet :: Net where
  "captchaOfferNet calls input =
     (if fjUrl input = offerRequestsUrl sampleAction then Inl captchaMessage
      else Inl notFoundMessage)"

section \<open>Classification: the precedence and the test messages\<close>

lemma classify_precedence:
  "classifyCheckoutErrorMessage message =
     (if (includesStr (toLowerCase message) ''\"message_code\":\"access_denied\"''
          \<or> includesStr (toLowerCase message) ''message_code\":\"access_denied''
          \<or> includesStr (toLowerCase message) ''message_code=access_denied''
          \<or> includesStr (toLowerCase message) ''access_denied''
          \<or> includesStr (toLowerCase message) ''\"code\":106''
          \<or> includesStr (toLowerCase message) ''access denied''
          \<or> includesStr (concat (map nfkdStripMarks (toLowerCase message)))
                (units ''acces refuse''))
         \<and> (extractStatusCode message = Some 401 \<or> extractStatusCode message = Some 403
              \<or> extractStatusCode message = None)
      then status_access_denied
      else if includesStr (toLowerCase message) ''blockiert''
              \<or> includesStr (toLowerCase message) ''cloudflare''
              \<or> includesStr (toLowerCase message) ''captcha''
              \<or> includesStr (toLowerCase message) ''just a moment''
              \<or> extractStatusCode message = Some 403
      then status_blocked
      else if includesStr (toLowerCase message) ''pickup''
              \<or> includesStr (toLowerCase message) ''abholpunkt''
              \<or> includesStr (toLowerCase message) ''relay''
              \<or> includesStr (toLowerCase message) ''parcel''
      then status_invalid_pickup_point
      else status_failed)"
  by (simp add: classifyCheckoutErrorMessage_def hasAccessDeniedHint_def hasBlockedKeyword_def
      hasPickupHint_def normalizeForMatch_def Let_def)

lemmas classify_defs = classifyCheckoutErrorMessage_def hasAccessDeniedHint_def
  hasBlockedKeyword_def hasPickupHint_def normalizeForMatch_def toLowerCase_def lowerChar_def
  isDigit_def digitVal_def nfkdStripMarks_def units_def Let_def

lemma extractStatusCode_examples:
  "extractStatusCode ''Vinted request failed (422). pickup_point'' = Some 422"
  "extractStatusCode ''no code (12) (1234) (abc)'' = None"
  "extractStatusCode ''two codes (500) (403)'' = Some 500"
  by (simp_all add: isDigit_def digitVal_def)

lemma classify_tests:
  "classifyCheckoutErrorMessage msg_access_denied = status_access_denied"
  "classifyCheckoutErrorMessage msg_blocked = status_blocked"
  "classifyCheckoutErrorMessage msg_pickup = status_invalid_pickup_point"
  "classifyCheckoutErrorMessage msg_failed = status_failed"
  by (simp_all add: classify_defs msg_access_denied_def msg_blocked_def msg_pickup_def
      msg_failed_def)

lemma classify_rules_apart:
  "classifyCheckoutErrorMessage msg_refuse_capitals = status_access_denied"
  "classifyCheckoutErrorMessage msg_refuse_accents = status_access_denied"
  "classifyCheckoutErrorMessage msg_denied_500 = status_failed"
  "classifyCheckoutErrorMessage msg_denied_500_captcha = status_blocked"
  "classifyCheckoutErrorMessage msg_denied_captcha = status_access_denied"
  "classifyCheckoutErrorMessage msg_pickup_403 = status_blocked"
  "classifyCheckoutErrorMessage msg_pickup_cloudflare = status_blocked"
  "classifyCheckoutErrorMessage msg_relay_500 = status_invalid_pickup_point"
  by (simp_all add: classify_defs msg_refuse_capitals_def msg_refuse_accents_def
      msg_denied_500_def msg_denied_500_captcha_def msg_denied_captcha_def msg_pickup_403_def
      msg_pickup_cloudflare_def msg_relay_500_def)

text \<open>
  Claim C1.  \<open>classifyCheckoutErrorMessage\<close> is a function of the message alone, defined on
  every string, and it follows the four-rule precedence.  With the message lower-cased and the
  status code the first parenthesized group of three digits: (1) when the lower-cased message
  contains \<open>access_denied\<close> (alone or in one of the three \<open>message_code\<close> spellings), \<open>"code":106\<close>
  or \<open>access denied\<close>, or when the lower-cased message without its accents contains
  \<open>acces refuse\<close>, and the status code is 401, 403 or absent, the result is \<open>access_denied\<close>;
  (2) otherwise, when the lower-cased message contains \<open>blockiert\<close>, \<open>cloudflare\<close>, \<open>captcha\<close> or
  \<open>just a moment\<close>, or the status code is 403, the result is \<open>blocked\<close>; (3) otherwise, when it
  contains \<open>pickup\<close>, \<open>abholpunkt\<close>, \<open>relay\<close> or \<open>parcel\<close>, the result is \<open>invalid_pickup_point\<close>;
  (4) otherwise \<open>failed\<close>.  The four messages of the test suite are classified as
  access_denied, blocked, invalid_pickup_point and failed.  The French hint is found in
  capitals and with its accents; an access-denied hint next to status 500 does not give
  access_denied; access_denied wins over a captcha keyword, status 403 and a blocked keyword
  win over a pickup hint.
\<close>

theorem C1_classify_precedence:
  "classifyCheckoutErrorMessage message =
     (if (includesStr (toLowerCase message) ''\"message_code\":\"access_denied\"''
          \<or> includesStr (toLowerCase message) ''message_code\":\"access_denied''
          \<or> includesStr (toLowerCase message) ''message_code=access_denied''
          \<or> includesStr (toLowerCase message) ''access_denied''
          \<or> includesStr (toLowerCase message) ''\"code\":106''
          \<or> includesStr (toLowerCase message) ''access denied''
          \<or> includesStr (concat (map nfkdStripMarks (toLowerCase message)))
                (units ''acces refuse''))
         \<and> (extractStatusCode message = Some 401 \<or> extractStatusCode message = Some 403
              \<or> extractStatusCode message = None)
      then status_access_denied
      else if includesStr (toLowerCase message) ''blockiert''
              \<or> includesStr (toLowerCase message) ''cloudflare''
              \<or> includesStr (toLowerCase message) ''captcha''
              \<or> includesStr (toLowerCase message) ''just a moment''
              \<or> extractStatusCode message = Some 403
      then status_blocked
      else if includesStr (toLowerCase message) ''pickup''
              \<or> includesStr (toLowerCase message) ''abholpunkt''
              \<or> includesStr (toLowerCase message) ''relay''
              \<or> includesStr (toLowerCase message) ''parcel''
      then status_invalid_pickup_point
      else status_failed)
   \<and> classifyCheckoutErrorMessage
        (''Vinted request failed (403). {\"code\":106,\"message\":\"Acc'' @ [CHR 0xE8] @ ''s refus''
         @ [CHR 0xE9] @ '' \",\"message_code\":\"access_denied\"}'') = status_access_denied
   \<and> classifyCheckoutErrorMessage
        ''Vinted hat die Anfrage blockiert (Anti-Bot/Cloudflare). Bitte warte kurz.''
       = status_blocked
   \<and> classifyCheckoutErrorMessage
        ''Vinted request failed (422). pickup_point is not valid for this listing.''
       = status_invalid_pickup_point
   \<and> classifyCheckoutErrorMessage ''Vinted request failed (500). Internal server error''
       = status_failed
   \<and> extractStatusCode ''Vinted request failed (422). pickup_point'' = Some 422
   \<and> extractStatusCode ''no code (12) (1234) (abc)'' = None
   \<and> extractStatusCode ''two codes (500) (403)'' = Some 500
   \<and> classifyCheckoutErrorMessage ''ACCES REFUSE'' = status_access_denied
   \<and> classifyCheckoutErrorMessage
        (''Vinted request failed (401). Acc'' @ [CHR 0xC8] @ ''s refus'' @ [CHR 0xE9])
       = status_access_denied
   \<and> classifyCheckoutErrorMessage
        ''Vinted request failed (500). {\"message_code\":\"access_denied\"}'' = status_failed
   \<and> classifyCheckoutErrorMessage
        ''Vinted request failed (500). access_denied, captcha required'' = status_blocked
   \<and> classifyCheckoutErrorMessage
        ''Vinted request failed (401). access_denied, captcha required'' = status_access_denied
   \<and> classifyCheckoutErrorMessage
        ''Vinted request failed (403). pickup_point is not valid for this listing.''
       = status_blocked
   \<and> classifyCheckoutErrorMessage
        ''Vinted request failed (422). Cloudflare: PARCEL shop unknown'' = status_blocked
   \<and> classifyCheckoutErrorMessage
        ''Vinted request failed (500). Mondial RELAY point not found''
       = status_invalid_pickup_point"
  using classify_precedence [of message] extractStatusCode_examples classify_tests
    classify_rules_apart
  unfolding msg_access_denied_def msg_blocked_def msg_pickup_def msg_failed_def
    msg_refuse_capitals_def msg_refuse_accents_def msg_denied_500_def
    msg_denied_500_captcha_def msg_denied_captcha_def msg_pickup_403_def
    msg_pickup_cloudflare_def msg_relay_500_def
  by (intro conjI) assumption+

section \<open>Token lifecycle: entry checks, refresh outcomes, runs of calls\<close>


lemma enter_StartedD:
  assumes "fst (getAccessTokenForUser_enter tc tb tr u s) = StartedRefresh p"
  shows "getAccessTokenForUser_enter tc tb tr u s =
           (StartedRefresh (nextPromise s),
            s\<lparr>inFlight := (inFlight s)(u \<mapsto> nextPromise s),
              nextPromise := Suc (nextPromise s),
              effects := effects s @ [LoadAccount u]\<rparr>)"
    and "p = nextPromise s"
    and "\<And>c. cache s u = Some c \<Longrightarrow> \<not> tc < expiresAtMs c - 30000"
  using assms
  by (auto simp: getAccessTokenForUser_enter_def split: option.splits if_splits)

lemma refreshOutcomeD:
  assumes "refreshOutcome env u s = Some x"
  obtains account reg t where
    "getAccessTokenForUser_enter (tCache env) (tBlock env) (tReauth env) u s =
           (StartedRefresh (nextPromise s),
            s\<lparr>inFlight := (inFlight s)(u \<mapsto> nextPromise s),
              nextPromise := Suc (nextPromise s),
              effects := effects s @ [LoadAccount u]\<rparr>)"
    "accountResult env = Inr account" "parseRegion (accountRegion account) = Inr reg"
    "decryptResult env = Some t" "refreshResult env = x"
proof -
  from assms obtain p where
    p: "fst (getAccessTokenForUser_enter (tCache env) (tBlock env) (tReauth env) u s)
          = StartedRefresh p"
    by (auto simp: refreshOutcome_def split: CallStart.splits)
  from assms p obtain account reg t where
    "accountResult env = Inr account" "parseRegion (accountRegion account) = Inr reg"
    "decryptResult env = Some t" "refreshResult env = x"
    by (auto simp: refreshOutcome_def split: sum.splits option.splits)
  with enter_StartedD(1) [OF p] that show thesis by blast
qed

lemma refreshOutcome_stale:
  assumes "refreshOutcome env u s = Some x" and "cache s u = Some c"
  shows "\<not> tCache env < expiresAtMs c - 30000"
proof -
  from assms(1) obtain p where
    p: "fst (getAccessTokenForUser_enter (tCache env) (tBlock env) (tReauth env) u s)
          = StartedRefresh p"
    by (auto simp: refreshOutcome_def split: CallStart.splits)
  from enter_StartedD(3) [OF p assms(2)] show ?thesis .
qed

lemma failsBlocked_step:
  assumes "failsBlocked env u s"
  shows "blocked (snd (getAccessTokenForUser env u s)) u
           = Some (bumpBackoff (failureNow env) (blocked s u))"
    and "cache (snd (getAccessTokenForUser env u s)) = cache s"
    and "\<And>c. cache s u = Some c \<Longrightarrow> \<not> tCache env < expiresAtMs c - 30000"
proof -
  from assms obtain message where
    m: "refreshOutcome env u s = Some (Inl message)" "isBlockedError message"
    by (auto simp: failsBlocked_def split: option.splits sum.splits)
  from m(1) obtain account reg t where e:
    "getAccessTokenForUser_enter (tCache env) (tBlock env) (tReauth env) u s =
           (StartedRefresh (nextPromise s),
            s\<lparr>inFlight := (inFlight s)(u \<mapsto> nextPromise s),
              nextPromise := Suc (nextPromise s),
              effects := effects s @ [LoadAccount u]\<rparr>)"
    "accountResult env = Inr account" "parseRegion (accountRegion account) = Inr reg"
    "decryptResult env = Some t" "refreshResult env = Inl message"
    by (rule refreshOutcomeD)
  show "blocked (snd (getAccessTokenForUser env u s)) u
           = Some (bumpBackoff (failureNow env) (blocked s u))"
    by (simp add: getAccessTokenForUser_def e m(2) getAccessTokenForUser_settle_def
        refreshBody_def Let_def)
  show "cache (snd (getAccessTokenForUser env u s)) = cache s"
    by (simp add: getAccessTokenForUser_def e m(2) getAccessTokenForUser_settle_def
        refreshBody_def Let_def)
  show "\<And>c. cache s u = Some c \<Longrightarrow> \<not> tCache env < expiresAtMs c - 30000"
    by (rule refreshOutcome_stale [OF m(1)])
qed

lemma bump_strikes:
  "bumpBackoff now prev =
     \<lparr>until = now + min 1800000 (30000 * 2 ^ min (strikesOf prev + 1) 6),
      strikes = min (strikesOf prev + 1) 6\<rparr>"
  by (simp add: bumpBackoff_def strikesOf_def Let_def)

lemma strikesOf_bump: "strikesOf (Some (bumpBackoff now prev)) = min (strikesOf prev + 1) 6"
  by (simp add: bump_strikes) (simp add: strikesOf_def)

lemma min_min_add: "min (min k m + n) m = min (k + n) (m::nat)"
  by (simp add: min_def)

lemma run_blocked:
  "envs \<noteq> [] \<Longrightarrow> consecutiveBlockedFailures envs u s \<Longrightarrow>
   blocked (runCalls envs u s) u =
     Some \<lparr>until = failureNow (last envs)
                    + min 1800000 (30000 * 2 ^ min (strikesOf (blocked s u) + length envs) 6),
           strikes = min (strikesOf (blocked s u) + length envs) 6\<rparr>"
proof (induction envs arbitrary: s)
  case Nil
  then show ?case by simp
next
  case (Cons env envs)
  let ?s1 = "snd (getAccessTokenForUser env u s)"
  from Cons.prems have fb: "failsBlocked env u s"
    and rest: "consecutiveBlockedFailures envs u ?s1"
    by simp_all
  have b1: "blocked ?s1 u = Some (bumpBackoff (failureNow env) (blocked s u))"
    by (rule failsBlocked_step(1) [OF fb])
  show ?case
  proof (cases "envs = []")
    case True
    then show ?thesis using b1 by (simp add: bump_strikes)
  next
    case False
    have k: "strikesOf (blocked ?s1 u) + length envs
               = min (strikesOf (blocked s u) + 1) 6 + length envs"
      by (simp only: b1 strikesOf_bump)
    have "blocked (runCalls envs u ?s1) u =
      Some \<lparr>until = failureNow (last envs)
                     + min 1800000 (30000 * 2 ^ min (strikesOf (blocked ?s1 u) + length envs) 6),
           strikes = min (strikesOf (blocked ?s1 u) + length envs) 6\<rparr>"
      by (rule Cons.IH [OF False rest])
    then show ?thesis using False
      by (simp add: k min_min_add)
  qed
qed

lemma run_blocked_cache:
  "consecutiveBlockedFailures envs u s \<Longrightarrow> cache (runCalls envs u s) = cache s"
proof (induction envs arbitrary: s)
  case Nil
  then show ?case by simp
next
  case (Cons env envs)
  then show ?case by (simp add: failsBlocked_step(2))
qed

lemma run_blocked_stale:
  "envs \<noteq> [] \<Longrightarrow> consecutiveBlockedFailures envs u s \<Longrightarrow> cache s u = Some c \<Longrightarrow>
   \<not> tCache (last envs) < expiresAtMs c - 30000"
proof (induction envs arbitrary: s)
  case Nil
  then show ?case by simp
next
  case (Cons env envs)
  let ?s1 = "snd (getAccessTokenForUser env u s)"
  from Cons.prems have fb: "failsBlocked env u s"
    and rest: "consecutiveBlockedFailures envs u ?s1"
    by simp_all
  show ?case
  proof (cases "envs = []")
    case True
    then show ?thesis using failsBlocked_step(3) [OF fb Cons.prems(3)] by simp
  next
    case False
    have "cache ?s1 u = Some c" using failsBlocked_step(2) [OF fb] Cons.prems(3) by simp
    from Cons.IH [OF False rest this] False show ?thesis by simp
  qed
qed

lemma block_fast_fail:
  assumes "blocked s u = Some b" and "tBlock env < until b"
    and "\<And>c. cache s u = Some c \<Longrightarrow> \<not> tCache env < expiresAtMs c - 30000"
  shows "getAccessTokenForUser env u s = (Resolved (Inl blockedMessage), s)"
proof (cases "cache s u")
  case None
  then show ?thesis using assms(1,2)
    by (simp add: getAccessTokenForUser_def getAccessTokenForUser_enter_def)
next
  case (Some c)
  with assms(3) have "\<not> tCache env < expiresAtMs c - 30000" by simp
  then show ?thesis using assms(1,2) Some
    by (simp add: getAccessTokenForUser_def getAccessTokenForUser_enter_def)
qed

text \<open>
  Claim C2.  Start from a state with no block state for the user and let \<open>N \<ge> 1\<close> calls in
  a row each reach the refresh and fail with a message classified as blocked.  After the
  \<open>N\<close>-th failure the user's block state has \<open>min N 6\<close> strikes and its \<open>until\<close> is the clock
  read of that failure plus \<open>min (30 min) (30 s * 2 ^ min N 6)\<close>.  Every later call whose
  clock read is before \<open>until\<close> returns the blocked error and leaves the whole state,
  effect log included, as it was: no account lookup, no refresh call.
\<close>

theorem C2_blocked_backoff:
  assumes "blocked s u = None" and "envs \<noteq> []" and "consecutiveBlockedFailures envs u s"
  shows "blocked (runCalls envs u s) u =
           Some \<lparr>until = failureNow (last envs)
                          + min (30 * 60000) (30000 * 2 ^ min (length envs) 6),
                 strikes = min (length envs) 6\<rparr>
         \<and> (\<forall>env'. tCache (last envs) \<le> tCache env' \<and>
               tBlock env' < failureNow (last envs)
                              + min (30 * 60000) (30000 * 2 ^ min (length envs) 6) \<longrightarrow>
               getAccessTokenForUser env' u (runCalls envs u s)
                 = (Resolved (Inl blockedMessage), runCalls envs u s))"
proof -
  let ?s' = "runCalls envs u s"
  let ?b = "\<lparr>until = failureNow (last envs)
                          + min (30 * 60000) (30000 * 2 ^ min (length envs) 6),
                 strikes = min (length envs) 6\<rparr>"
  have b: "blocked ?s' u = Some ?b"
    using run_blocked [OF assms(2,3)] assms(1) by (simp add: strikesOf_def)
  have c: "cache ?s' = cache s" by (rule run_blocked_cache [OF assms(3)])
  have "getAccessTokenForUser env' u ?s' = (Resolved (Inl blockedMessage), ?s')"
    if "tCache (last envs) \<le> tCache env'" and "tBlock env' < until ?b" for env'
  proof (rule block_fast_fail [OF b that(2)])
    fix cached
    assume "cache ?s' u = Some cached"
    then have "cache s u = Some cached" by (simp add: c)
    from run_blocked_stale [OF assms(2,3) this] that(1)
    show "\<not> tCache env' < expiresAtMs cached - 30000" by simp
  qed
  with b show ?thesis by simp
qed

theorem C2_blocked_backoff_witness:
  "blocked (runCalls [sampleEnv 0 5 (Inl blockedMessage),
                      sampleEnv 70000 70010 (Inl blockedMessage)] ''u1'' emptyTokenState) ''u1''
     = Some \<lparr>until = 190010, strikes = 2\<rparr>
   \<and> getAccessTokenForUser (sampleEnv 80000 80000 (Inr sampleResponse)) ''u1''
        (runCalls [sampleEnv 0 5 (Inl blockedMessage),
                   sampleEnv 70000 70010 (Inl blockedMessage)] ''u1'' emptyTokenState)
     = (Resolved (Inl blockedMessage),
        runCalls [sampleEnv 0 5 (Inl blockedMessage),
                  sampleEnv 70000 70010 (Inl blockedMessage)] ''u1'' emptyTokenState)"
proof -
  let ?envs = "[sampleEnv 0 5 (Inl blockedMessage), sampleEnv 70000 70010 (Inl blockedMessage)]"
  have h1: "blocked emptyTokenState ''u1'' = None" by (simp add: emptyTokenState_def)
  have h2: "?envs \<noteq> []" by simp
  have bm: "isBlockedError blockedMessage"
    by (simp add: isBlockedError_def blockedMessage_def toLowerCase_def lowerChar_def
        auml_def)
  have h3: "consecutiveBlockedFailures ?envs ''u1'' emptyTokenState"
    by (simp add: failsBlocked_def refreshOutcome_def getAccessTokenForUser_def
        getAccessTokenForUser_enter_def getAccessTokenForUser_settle_def refreshBody_def
        sampleEnv_def sampleAccount_def parseRegion_def emptyTokenState_def bm bumpBackoff_def
        Let_def)
  from C2_blocked_backoff [OF h1 h2 h3] show ?thesis
    by (simp add: sampleEnv_def)
qed

lemma invalidGrant_step:
  assumes "refreshOutcome env u s = Some (Inl message)" and "isInvalidGrantError message"
    and "\<not> isBlockedError message"
  shows "fst (getAccessTokenForUser env u s) = Resolved (Inl reauthRequiredMessage)"
    and "reauthRequired (snd (getAccessTokenForUser env u s)) u
           = Some \<lparr>reauthUntil = failureNow env + 30 * 60 * 1000\<rparr>"
    and "cache (snd (getAccessTokenForUser env u s)) u = None"
    and "blocked (snd (getAccessTokenForUser env u s)) u = None"
    and "inFlight (snd (getAccessTokenForUser env u s)) u = None"
    and "effects (snd (getAccessTokenForUser env u s)) \<noteq> effects s"
proof -
  from assms(1) obtain account reg t where e:
    "getAccessTokenForUser_enter (tCache env) (tBlock env) (tReauth env) u s =
           (StartedRefresh (nextPromise s),
            s\<lparr>inFlight := (inFlight s)(u \<mapsto> nextPromise s),
              nextPromise := Suc (nextPromise s),
              effects := effects s @ [LoadAccount u]\<rparr>)"
    "accountResult env = Inr account" "parseRegion (accountRegion account) = Inr reg"
    "decryptResult env = Some t" "refreshResult env = Inl message"
    by (rule refreshOutcomeD)
  note defs = getAccessTokenForUser_def e assms(2,3) getAccessTokenForUser_settle_def
    refreshBody_def Let_def REAUTH_COOLDOWN_MS_def
  show "fst (getAccessTokenForUser env u s) = Resolved (Inl reauthRequiredMessage)"
    by (simp add: defs)
  show "reauthRequired (snd (getAccessTokenForUser env u s)) u
           = Some \<lparr>reauthUntil = failureNow env + 30 * 60 * 1000\<rparr>"
    by (simp add: defs)
  show "cache (snd (getAccessTokenForUser env u s)) u = None"
    by (simp add: defs)
  show "blocked (snd (getAccessTokenForUser env u s)) u = None"
    by (simp add: defs)
  show "inFlight (snd (getAccessTokenForUser env u s)) u = None"
    by (simp add: defs)
  show "effects (snd (getAccessTokenForUser env u s)) \<noteq> effects s"
    by (simp add: defs)
qed

lemma reauth_fast_fail:
  assumes "cache s u = None" and "blocked s u = None" and "reauthRequired s u = Some r"
    and "tReauth e < reauthUntil r"
  shows "getAccessTokenForUser e u s = (Resolved (Inl reauthRequiredMessage), s)"
  using assms by (simp add: getAccessTokenForUser_def getAccessTokenForUser_enter_def)

lemma reauth_run:
  assumes "cache s u = None" and "blocked s u = None" and "reauthRequired s u = Some r"
    and "\<forall>e \<in> set envs. tReauth e < reauthUntil r"
  shows "runCalls envs u s = s
       \<and> callResults envs u s = replicate (length envs) (Resolved (Inl reauthRequiredMessage))"
  using assms(4)
proof (induction envs)
  case Nil
  then show ?case by simp
next
  case (Cons e envs)
  then have "getAccessTokenForUser e u s = (Resolved (Inl reauthRequiredMessage), s)"
    using reauth_fast_fail [OF assms(1-3)] by simp
  with Cons show ?case by simp
qed

lemma clear_then_enter:
  "fst (getAccessTokenForUser_enter tc tb tr u (clearTokenStateForUser u s))
     = StartedRefresh (nextPromise s)"
  by (simp add: getAccessTokenForUser_enter_def clearTokenStateForUser_def)

text \<open>
  Claim C3, as stated, at a message that contains \<open>invalid_grant\<close> and also \<open>blockiert\<close>: the
  refresh fails with it, the blocked branch runs first, the call returns the message itself
  and sets no reauth cooldown.
\<close>

theorem C3_counterexample:
  "isInvalidGrantError msg_invalid_grant_blocked
   \<and> refreshOutcome (sampleEnv 0 5 (Inl msg_invalid_grant_blocked)) ''u1'' emptyTokenState
       = Some (Inl msg_invalid_grant_blocked)
   \<and> fst (getAccessTokenForUser (sampleEnv 0 5 (Inl msg_invalid_grant_blocked)) ''u1''
            emptyTokenState)
       = Resolved (Inl msg_invalid_grant_blocked)
   \<and> reauthRequired (snd (getAccessTokenForUser (sampleEnv 0 5 (Inl msg_invalid_grant_blocked))
                              ''u1'' emptyTokenState)) ''u1'' = None"
  by (simp add: isInvalidGrantError_def isBlockedError_def msg_invalid_grant_blocked_def
      refreshOutcome_def sampleEnv_def sampleAccount_def emptyTokenState_def
      getAccessTokenForUser_def parseRegion_def getAccessTokenForUser_enter_def
      getAccessTokenForUser_settle_def refreshBody_def Let_def toLowerCase_def lowerChar_def)

text \<open>
  Claim C3, amended.  When a call's refresh fails with a message that is not classified as
  blocked (the blocked check runs first) and contains \<open>invalid_grant\<close> or
  \<open>authorization grant is invalid\<close>, the call returns the run-setup-again error, the user's
  reauth cooldown ends exactly 30 minutes after the clock read of the failure, and the
  user's cached token and block state are gone.  Every later call whose clock read is before
  the end of the cooldown returns the same error and leaves the state, effect log included,
  unchanged: no account lookup, no decryption, no refresh call.  After
  \<open>clearTokenStateForUser\<close> the cooldown is gone and the next call starts a refresh.
\<close>

theorem C3_invalid_grant_reauth:
  assumes "refreshOutcome env u s = Some (Inl message)"
    and "includesStr (toLowerCase message) ''invalid_grant''
         \<or> includesStr (toLowerCase message) ''authorization grant is invalid''"
    and "\<not> includesStr (toLowerCase message) ''blockiert''"
  shows "fst (getAccessTokenForUser env u s) = Resolved (Inl reauthRequiredMessage)
   \<and> reauthRequired (snd (getAccessTokenForUser env u s)) u
       = Some \<lparr>reauthUntil = failureNow env + 30 * 60 * 1000\<rparr>
   \<and> cache (snd (getAccessTokenForUser env u s)) u = None
   \<and> blocked (snd (getAccessTokenForUser env u s)) u = None
   \<and> (\<forall>envs. (\<forall>e \<in> set envs. tReauth e < failureNow env + 30 * 60 * 1000) \<longrightarrow>
         runCalls envs u (snd (getAccessTokenForUser env u s))
           = snd (getAccessTokenForUser env u s)
         \<and> callResults envs u (snd (getAccessTokenForUser env u s))
           = replicate (length envs) (Resolved (Inl reauthRequiredMessage)))
   \<and> reauthRequired (clearTokenStateForUser u (snd (getAccessTokenForUser env u s))) u = None
   \<and> (\<forall>tc tb tr.
         fst (getAccessTokenForUser_enter tc tb tr u
                (clearTokenStateForUser u (snd (getAccessTokenForUser env u s))))
           = StartedRefresh (nextPromise (snd (getAccessTokenForUser env u s))))"
proof -
  let ?s' = "snd (getAccessTokenForUser env u s)"
  have ig: "isInvalidGrantError message" using assms(2) by (simp add: isInvalidGrantError_def)
  have nb: "\<not> isBlockedError message" using assms(3) by (simp add: isBlockedError_def)
  note st = invalidGrant_step [OF assms(1) ig nb]
  have run: "runCalls envs u ?s' = ?s'
       \<and> callResults envs u ?s' = replicate (length envs) (Resolved (Inl reauthRequiredMessage))"
    if "\<forall>e \<in> set envs. tReauth e < failureNow env + 30 * 60 * 1000" for envs
    using reauth_run [OF st(3) st(4) st(2)] that by simp
  have clr: "reauthRequired (clearTokenStateForUser u ?s') u = None"
    by (simp add: clearTokenStateForUser_def)
  from st(1) st(2) st(3) st(4) run clr clear_then_enter show ?thesis by blast
qed

theorem C3_invalid_grant_reauth_witness:
  "fst (getAccessTokenForUser (sampleEnv 0 5 (Inl msg_invalid_grant)) ''u1'' emptyTokenState)
     = Resolved (Inl reauthRequiredMessage)
   \<and> reauthRequired (snd (getAccessTokenForUser (sampleEnv 0 5 (Inl msg_invalid_grant)) ''u1''
                             emptyTokenState)) ''u1''
     = Some \<lparr>reauthUntil = 1800005\<rparr>
   \<and> callResults [sampleEnv 10 10 (Inr sampleResponse), sampleEnv 1800004 0 (Inr sampleResponse)]
        ''u1'' (snd (getAccessTokenForUser (sampleEnv 0 5 (Inl msg_invalid_grant)) ''u1''
                       emptyTokenState))
     = [Resolved (Inl reauthRequiredMessage), Resolved (Inl reauthRequiredMessage)]
   \<and> runCalls [sampleEnv 10 10 (Inr sampleResponse), sampleEnv 1800004 0 (Inr sampleResponse)]
        ''u1'' (snd (getAccessTokenForUser (sampleEnv 0 5 (Inl msg_invalid_grant)) ''u1''
                       emptyTokenState))
     = snd (getAccessTokenForUser (sampleEnv 0 5 (Inl msg_invalid_grant)) ''u1'' emptyTokenState)"
proof -
  let ?env = "sampleEnv 0 5 (Inl msg_invalid_grant)"
  let ?later = "[sampleEnv 10 10 (Inr sampleResponse), sampleEnv 1800004 0 (Inr sampleResponse)]"
  have h1: "refreshOutcome ?env ''u1'' emptyTokenState = Some (Inl msg_invalid_grant)"
    by (simp add: refreshOutcome_def sampleEnv_def sampleAccount_def emptyTokenState_def
        parseRegion_def getAccessTokenForUser_enter_def)
  have h2: "includesStr (toLowerCase msg_invalid_grant) ''invalid_grant''
            \<or> includesStr (toLowerCase msg_invalid_grant) ''authorization grant is invalid''"
    by (simp add: msg_invalid_grant_def toLowerCase_def lowerChar_def)
  have h3: "\<not> includesStr (toLowerCase msg_invalid_grant) ''blockiert''"
    by (simp add: msg_invalid_grant_def toLowerCase_def lowerChar_def)
  have h4: "\<forall>e \<in> set ?later. tReauth e < failureNow ?env + 30 * 60 * 1000"
    by (simp add: sampleEnv_def)
  note t = C3_invalid_grant_reauth [OF h1 h2 h3]
  let ?s' = "snd (getAccessTokenForUser ?env ''u1'' emptyTokenState)"
  from t have a: "fst (getAccessTokenForUser ?env ''u1'' emptyTokenState)
                    = Resolved (Inl reauthRequiredMessage)"
    by (rule conjunct1)
  from t have b: "reauthRequired ?s' ''u1''
                    = Some \<lparr>reauthUntil = failureNow ?env + 30 * 60 * 1000\<rparr>"
    by blast
  from t have "\<forall>envs. (\<forall>e \<in> set envs. tReauth e < failureNow ?env + 30 * 60 * 1000) \<longrightarrow>
         runCalls envs ''u1'' ?s' = ?s'
         \<and> callResults envs ''u1'' ?s'
           = replicate (length envs) (Resolved (Inl reauthRequiredMessage))"
    by blast
  with h4 have c: "runCalls ?later ''u1'' ?s' = ?s'
         \<and> callResults ?later ''u1'' ?s'
           = replicate (length ?later) (Resolved (Inl reauthRequiredMessage))"
    by blast
  have d: "replicate (length ?later) (Resolved (Inl reauthRequiredMessage))
             = [Resolved (Inl reauthRequiredMessage), Resolved (Inl reauthRequiredMessage)]"
    by simp
  have f: "failureNow ?env + 30 * 60 * 1000 = 1800005" by (simp add: sampleEnv_def)
  from a b c show ?thesis unfolding d f by blast
qed

lemma enter_refreshCalls:
  "refreshCalls u (snd (getAccessTokenForUser_enter tc tb tr u s)) = refreshCalls u s"
  by (auto simp: getAccessTokenForUser_enter_def refreshCalls_def split: option.splits)








section \<open>Transport: which responses are blocks and what the caller gets\<close>

lemma looksLikeBotBlock_iff:
  "looksLikeBotBlock status ct text \<longleftrightarrow>
     status = 403 \<and>
     ((\<exists>c. ct = Some c \<and> includesStr (toLowerCase c) ''text/html'')
      \<or> includesStr (toLowerCase text) ''<!doctype html''
      \<or> includesStr (toLowerCase text) ''<title>vinted</title''
      \<or> includesStr (toLowerCase text) ''just a moment'')"
  by (auto simp: looksLikeBotBlock_def Let_def split: option.splits)

lemma curl_block:
  assumes "exitCode run = 0" and "CHR 0x0A \<in> set (stdout run)"
    and "parseInt10 (curlStatusText (stdout run)) = Some status"
    and "looksLikeBotBlock status None (curlBodyText (stdout run))"
  shows "fetchJsonViaCurl P run = Inl toVintedBlockedError"
proof -
  from assms(4) have "status = 403" by (simp add: looksLikeBotBlock_def split: if_splits)
  with assms show ?thesis by (simp add: fetchJsonViaCurl_def Let_def)
qed

lemma fetch_block:
  assumes "backend env = backend_fetch" and "fetchOutcome env = Some res"
    and "looksLikeBotBlock (resStatus res) (resContentType res) (resText res)"
  shows "fetchJson P env =
           \<lparr>result = Inl toVintedBlockedError, markedPreferCurl = False, curlStarted = 0\<rparr>"
proof -
  from assms(3) have "resStatus res = 403" by (simp add: looksLikeBotBlock_def split: if_splits)
  with assms show ?thesis by (simp add: fetchJson_def Let_def)
qed

lemma auto_block:
  assumes "backend env = backend_auto" and "\<not> preferCurl env" and "fetchOutcome env = Some res"
    and "looksLikeBotBlock (resStatus res) (resContentType res) (resText res)"
  shows "result (fetchJson P env) =
           (case fetchJsonViaCurl P (curlRuns env 0) of
              Inr v \<Rightarrow> Inr v
            | Inl e \<Rightarrow> fetchJsonViaCurl P (curlRuns env 1))"
proof -
  from assms(4) have "resStatus res = 403" by (simp add: looksLikeBotBlock_def split: if_splits)
  with assms show ?thesis by (simp add: fetchJson_def Let_def split: sum.splits)
qed

text \<open>
  Claim C7, as stated, at an interstitial page answered with 403 to the fetch backend in
  \<open>auto\<close> mode: the response is classified as a block, the request is handed to curl, curl
  cannot connect, and the caller gets curl's error, not the fixed blocked message.
\<close>

theorem C7_counterexample:
  "looksLikeBotBlock (resStatus challengePage) (resContentType challengePage)
     (resText challengePage)
   \<and> result (fetchJson samplePlatform
        \<lparr>backend = backend_auto, preferCurl = False, fetchOutcome = Some challengePage,
         curlRuns = (\<lambda>k. curlNoConnect)\<rparr>)
      = Inl ''Curl request failed (exit 7). curl: (7) Failed to connect to www.vinted.de''
   \<and> result (fetchJson samplePlatform
        \<lparr>backend = backend_auto, preferCurl = False, fetchOutcome = Some challengePage,
         curlRuns = (\<lambda>k. curlNoConnect)\<rparr>)
      \<noteq> Inl toVintedBlockedError"
  by code_simp

text \<open>
  Claim C7, amended.  A response is classified as an anti-bot block exactly when its status
  is 403 and its content type contains \<open>text/html\<close> or its body contains \<open><!doctype html\<close>,
  \<open><title>vinted</title\<close> or \<open>just a moment\<close>, letter case ignored.  The curl backend, which
  sees no content type, answers every response so classified with the fixed blocked message,
  and so does the fetch backend when the configuration pins it.  In \<open>auto\<close> mode a fetch
  response so classified is not surfaced: the request goes to curl (once more if that run
  fails) and the caller gets what curl gives.
\<close>

theorem C7_bot_block:
  "(looksLikeBotBlock status ct body \<longleftrightarrow>
      status = 403 \<and>
      ((\<exists>c. ct = Some c \<and> includesStr (toLowerCase c) ''text/html'')
       \<or> includesStr (toLowerCase body) ''<!doctype html''
       \<or> includesStr (toLowerCase body) ''<title>vinted</title''
       \<or> includesStr (toLowerCase body) ''just a moment''))
   \<and> (exitCode run = 0 \<and> CHR 0x0A \<in> set (stdout run)
        \<and> parseInt10 (curlStatusText (stdout run)) = Some curlStatus
        \<and> looksLikeBotBlock curlStatus None (curlBodyText (stdout run)) \<longrightarrow>
        fetchJsonViaCurl P run = Inl toVintedBlockedError)
   \<and> (fetchOutcome env = Some res
        \<and> looksLikeBotBlock (resStatus res) (resContentType res) (resText res) \<longrightarrow>
        (backend env = backend_fetch \<longrightarrow>
           result (fetchJson P env) = Inl toVintedBlockedError
           \<and> curlStarted (fetchJson P env) = 0)
        \<and> (backend env = backend_auto \<and> \<not> preferCurl env \<longrightarrow>
             result (fetchJson P env) =
               (case fetchJsonViaCurl P (curlRuns env 0) of
                  Inr v \<Rightarrow> Inr v
                | Inl e \<Rightarrow> fetchJsonViaCurl P (curlRuns env 1))))"
proof -
  have a: "fetchJsonViaCurl P run = Inl toVintedBlockedError"
    if "exitCode run = 0" and "CHR 0x0A \<in> set (stdout run)"
      and "parseInt10 (curlStatusText (stdout run)) = Some curlStatus"
      and "looksLikeBotBlock curlStatus None (curlBodyText (stdout run))"
    using curl_block [OF that] .
  have b: "result (fetchJson P env) = Inl toVintedBlockedError \<and> curlStarted (fetchJson P env) = 0"
    if "fetchOutcome env = Some res"
      and "looksLikeBotBlock (resStatus res) (resContentType res) (resText res)"
      and "backend env = backend_fetch"
    using fetch_block [OF that(3) that(1) that(2)] by simp
  have c: "result (fetchJson P env) =
               (case fetchJsonViaCurl P (curlRuns env 0) of
                  Inr v \<Rightarrow> Inr v
                | Inl e \<Rightarrow> fetchJsonViaCurl P (curlRuns env 1))"
    if "fetchOutcome env = Some res"
      and "looksLikeBotBlock (resStatus res) (resContentType res) (resText res)"
      and "backend env = backend_auto" and "\<not> preferCurl env"
    using auto_block [OF that(3) that(4) that(1) that(2)] .
  from a b c looksLikeBotBlock_iff [of status ct body] show ?thesis by blast
qed

theorem C7_bot_block_witness:
  "looksLikeBotBlock 403 (Some ''text/html; charset=UTF-8'') []
   \<and> fetchJsonViaCurl samplePlatform curlChallenge = Inl toVintedBlockedError
   \<and> result (fetchJson samplePlatform
        \<lparr>backend = backend_fetch, preferCurl = False, fetchOutcome = Some challengePage,
         curlRuns = (\<lambda>k. curlNoConnect)\<rparr>) = Inl toVintedBlockedError
   \<and> result (fetchJson samplePlatform
        \<lparr>backend = backend_auto, preferCurl = False, fetchOutcome = Some challengePage,
         curlRuns = (\<lambda>k. curlChallenge)\<rparr>) = Inl toVintedBlockedError"
proof -
  let ?pinned = "\<lparr>backend = backend_fetch, preferCurl = False, fetchOutcome = Some challengePage,
         curlRuns = (\<lambda>k. curlNoConnect)\<rparr>"
  let ?auto = "\<lparr>backend = backend_auto, preferCurl = False, fetchOutcome = Some challengePage,
         curlRuns = (\<lambda>k. curlChallenge)\<rparr>"
  have h0: "(403::int) = 403 \<and> ((\<exists>c. Some ''text/html; charset=UTF-8'' = Some c
              \<and> includesStr (toLowerCase c) ''text/html'')
       \<or> includesStr (toLowerCase []) ''<!doctype html''
       \<or> includesStr (toLowerCase []) ''<title>vinted</title''
       \<or> includesStr (toLowerCase []) ''just a moment'')"
    by (simp add: toLowerCase_def lowerChar_def)
  have h1: "exitCode curlChallenge = 0 \<and> CHR 0x0A \<in> set (stdout curlChallenge)
        \<and> parseInt10 (curlStatusText (stdout curlChallenge)) = Some 403
        \<and> looksLikeBotBlock 403 None (curlBodyText (stdout curlChallenge))"
    by code_simp
  have h2: "looksLikeBotBlock (resStatus challengePage) (resContentType challengePage)
              (resText challengePage)"
    by code_simp
  have c1: "fetchJsonViaCurl samplePlatform curlChallenge = Inl toVintedBlockedError"
    using C7_bot_block [where status = 403 and ct = "Some ''text/html; charset=UTF-8''"
        and body = "[]" and run = curlChallenge and curlStatus = 403 and env = ?pinned
        and res = challengePage and P = samplePlatform] h1 by blast
  have c0: "looksLikeBotBlock 403 (Some ''text/html; charset=UTF-8'') []"
    using C7_bot_block [where status = 403 and ct = "Some ''text/html; charset=UTF-8''"
        and body = "[]" and run = curlChallenge and curlStatus = 403 and env = ?pinned
        and res = challengePage and P = samplePlatform] h0 by blast
  have c2: "result (fetchJson samplePlatform ?pinned) = Inl toVintedBlockedError"
    using C7_bot_block [where status = 403 and ct = "Some ''text/html; charset=UTF-8''"
        and body = "[]" and run = curlChallenge and curlStatus = 403 and env = ?pinned
        and res = challengePage and P = samplePlatform] h2 by simp
  have c3: "result (fetchJson samplePlatform ?auto) =
               (case fetchJsonViaCurl samplePlatform (curlRuns ?auto 0) of
                  Inr v \<Rightarrow> Inr v
                | Inl e \<Rightarrow> fetchJsonViaCurl samplePlatform (curlRuns ?auto 1))"
    using C7_bot_block [where status = 403 and ct = "Some ''text/html; charset=UTF-8''"
        and body = "[]" and run = curlChallenge and curlStatus = 403 and env = ?auto
        and res = challengePage and P = samplePlatform] h2 by simp
  from c3 c1 have c4: "result (fetchJson samplePlatform ?auto) = Inl toVintedBlockedError"
    by simp
  from c0 c1 c2 c4 show ?thesis by blast
qed

section \<open>Session store: writes under one scope, reads under another\<close>

lemma getForScopeHost_other:
  "k1 \<noteq> k2 \<Longrightarrow>
   fst (getForScopeHost k2 h2 False (snd (getForScopeHost k1 h1 c store)))
     = fst (getForScopeHost k2 h2 False store)"
  by (auto simp: getForScopeHost_def split: option.splits)

lemma putScopeHost_other:
  "k1 \<noteq> k2 \<Longrightarrow>
   fst (getForScopeHost k2 h2 False (putScopeHost k1 h1 es store))
     = fst (getForScopeHost k2 h2 False store)"
  by (auto simp: getForScopeHost_def putScopeHost_def split: option.splits)

lemma put_get_other:
  "k1 \<noteq> k2 \<Longrightarrow>
   fst (getForScopeHost k2 h2 False
          (putScopeHost k1 h1 es (snd (getForScopeHost k1 h1 c store))))
     = fst (getForScopeHost k2 h2 False store)"
  by (simp add: putScopeHost_other getForScopeHost_other)

lemma setCookies_other:
  assumes "normalizeSessionScope s1 \<noteq> k2"
  shows "fst (getForScopeHost k2 h2 False (cookieJarByScopeHost (setCookiesInJar P url hs s1 st)))
       = fst (getForScopeHost k2 h2 False (cookieJarByScopeHost st))"
    and "dynamicHeadersByScopeHost (setCookiesInJar P url hs s1 st) = dynamicHeadersByScopeHost st"
  using assms
  by (auto simp: setCookiesInJar_def Let_def case_prod_beta put_get_other getForScopeHost_other
      split: option.splits)

lemma setDynamic_other:
  assumes "normalizeSessionScope s1 \<noteq> k2"
  shows "fst (getForScopeHost k2 h2 False
                (dynamicHeadersByScopeHost (setDynamicHeaderForUrl P url n v s1 st)))
       = fst (getForScopeHost k2 h2 False (dynamicHeadersByScopeHost st))"
    and "cookieJarByScopeHost (setDynamicHeaderForUrl P url n v s1 st) = cookieJarByScopeHost st"
  using assms
  by (auto simp: setDynamicHeaderForUrl_def Let_def case_prod_beta put_get_other
      getForScopeHost_other split: option.splits)

lemma remember_other:
  assumes "normalizeSessionScope s1 \<noteq> k2"
  shows "fst (getForScopeHost k2 h2 False
                (dynamicHeadersByScopeHost (rememberHeader P url rh s1 n st)))
       = fst (getForScopeHost k2 h2 False (dynamicHeadersByScopeHost st))"
    and "cookieJarByScopeHost (rememberHeader P url rh s1 n st) = cookieJarByScopeHost st"
  using assms by (auto simp: rememberHeader_def setDynamic_other split: option.splits)

lemma rememberAll_other:
  assumes "normalizeSessionScope s1 \<noteq> k2"
  shows "fst (getForScopeHost k2 h2 False
                (dynamicHeadersByScopeHost (rememberResponseHeadersForSession P url rh s1 st)))
       = fst (getForScopeHost k2 h2 False (dynamicHeadersByScopeHost st))"
    and "cookieJarByScopeHost (rememberResponseHeadersForSession P url rh s1 st)
           = cookieJarByScopeHost st"
  using assms by (simp_all add: rememberResponseHeadersForSession_def remember_other)

lemma sameReadsI:
  assumes "\<And>h. fst (getForScopeHost (normalizeSessionScope sc) h False (cookieJarByScopeHost st'))
       = fst (getForScopeHost (normalizeSessionScope sc) h False (cookieJarByScopeHost st))"
   and "\<And>h. fst (getForScopeHost (normalizeSessionScope sc) h False
                    (dynamicHeadersByScopeHost st'))
       = fst (getForScopeHost (normalizeSessionScope sc) h False (dynamicHeadersByScopeHost st))"
  shows "sameReads P penv sc st st'"
proof -
  have c: "getCookieHeaderFromJar P url sc st' = getCookieHeaderFromJar P url sc st" for url
    by (simp add: getCookieHeaderFromJar_def assms(1) split: option.split)
  have d: "getDynamicHeadersForUrl P url sc st' = getDynamicHeadersForUrl P url sc st" for url
    by (simp add: getDynamicHeadersForUrl_def assms(2) split: option.split)
  have "buildRequestHeaders P penv input st' = buildRequestHeaders P penv input st"
    if "reqSessionScope input = sc" for input
    using that by (simp add: buildRequestHeaders_def c d)
  with c d show ?thesis by (simp add: sameReads_def)
qed

text \<open>
  Claim C9, as stated, at the distinct session scopes \<open>user-a\<close> and \<open>user-a\<close> followed by a
  blank (a space, or the no-break space \<open>U+00A0\<close>): both are trimmed to the same key, so a
  cookie captured under the first is read under the second, in the cookie header of the jar
  and in the \<open>x-anon-id\<close> header of a request.  Likewise a capture under the unspecified scope is
  read under the scope \<open>__global__\<close>.
\<close>

theorem C9_counterexample:
  "Some ''user-a'' \<noteq> Some ''user-a ''
   \<and> getCookieHeaderFromJar samplePlatform toggleUrl (Some ''user-a '') emptyStore = None
   \<and> getCookieHeaderFromJar samplePlatform toggleUrl (Some ''user-a '')
        (setCookiesInJar samplePlatform toggleUrl [''anon_id=anon-a; Path=/''] (Some ''user-a'')
           emptyStore) = Some ''anon_id=anon-a''
   \<and> map_of (buildRequestHeaders samplePlatform noEnv (sampleRequest (Some ''user-a ''))
        (setCookiesInJar samplePlatform toggleUrl [''anon_id=anon-a; Path=/''] (Some ''user-a'')
           emptyStore)) ''x-anon-id'' = Some ''anon-a''
   \<and> getCookieHeaderFromJar samplePlatform toggleUrl (Some (''user-a'' @ [CHR 0xA0]))
        (setCookiesInJar samplePlatform toggleUrl [''anon_id=anon-a; Path=/''] (Some ''user-a'')
           emptyStore) = Some ''anon_id=anon-a''
   \<and> getCookieHeaderFromJar samplePlatform toggleUrl (Some ''__global__'')
        (setCookiesInJar samplePlatform toggleUrl [''anon_id=anon-a; Path=/''] None emptyStore)
       = Some ''anon_id=anon-a''"
  by code_simp

lemma trim_blank: "(\<forall>c \<in> set sc. isSpace c) \<Longrightarrow> trim sc = []"
proof -
  assume "\<forall>c \<in> set sc. isSpace c"
  then have h: "dropWhile isSpace sc = []" by simp
  show ?thesis by (simp only: trim_def h rev.simps dropWhile.simps)
qed

text \<open>
  Claim C9, amended.  The key of a session scope is the scope trimmed; an unspecified scope
  and a scope made of white space only (none, or any number of the code units
  \<open>U+0009\<close>..\<open>U+000D\<close>, \<open>U+0020\<close>, \<open>U+00A0\<close>) have the key \<open>__global__\<close>.  For any two session scopes
  whose keys differ, storing cookies or dynamic headers under the first, by Set-Cookie
  capture, by \<open>setDynamicHeaderForUrl\<close> or by the capture of the three response headers, leaves
  every read under the second unchanged: the cookie header of the jar, the dynamic headers,
  and all headers built for a request.
\<close>

theorem C9_scope_isolation:
  assumes "normalizeSessionScope s1 \<noteq> normalizeSessionScope s2"
  shows "sameReads P penv s2 st (setCookiesInJar P url setCookieHeaders s1 st)
   \<and> sameReads P penv s2 st (setDynamicHeaderForUrl P url headerName v s1 st)
   \<and> sameReads P penv s2 st (rememberResponseHeadersForSession P url responseHeader s1 st)
   \<and> normalizeSessionScope None = ''__global__''
   \<and> ((\<forall>c \<in> set sc. (of_char c :: nat) \<in> {9, 10, 11, 12, 13, 32, 160}) \<longrightarrow>
        normalizeSessionScope (Some sc) = ''__global__'')
   \<and> (trim sc \<noteq> [] \<longrightarrow> normalizeSessionScope (Some sc) = trim sc)"
proof -
  have a: "sameReads P penv s2 st (setCookiesInJar P url setCookieHeaders s1 st)"
    by (rule sameReadsI) (simp_all add: setCookies_other [OF assms])
  have b: "sameReads P penv s2 st (setDynamicHeaderForUrl P url headerName v s1 st)"
    by (rule sameReadsI) (simp_all add: setDynamic_other [OF assms])
  have c: "sameReads P penv s2 st (rememberResponseHeadersForSession P url responseHeader s1 st)"
    by (rule sameReadsI) (simp_all add: rememberAll_other [OF assms])
  have d: "normalizeSessionScope None = ''__global__''"
    by (simp add: normalizeSessionScope_def DEFAULT_SESSION_SCOPE_def)
  have e: "normalizeSessionScope (Some sc) = ''__global__''"
    if "\<forall>c \<in> set sc. (of_char c :: nat) \<in> {9, 10, 11, 12, 13, 32, 160}"
  proof -
    from that have "\<forall>c \<in> set sc. isSpace c" by (simp add: isSpace_def)
    then have "trim sc = []" by (rule trim_blank)
    then show ?thesis by (simp add: normalizeSessionScope_def DEFAULT_SESSION_SCOPE_def)
  qed
  have f: "normalizeSessionScope (Some sc) = trim sc" if "trim sc \<noteq> []"
    using that by (simp add: normalizeSessionScope_def)
  from a b c d e f show ?thesis by blast
qed

theorem C9_scope_isolation_witness:
  "getCookieHeaderFromJar samplePlatform toggleUrl (Some ''user-b'')
        (setCookiesInJar samplePlatform toggleUrl [''anon_id=anon-a; Path=/''] (Some ''user-a'')
           emptyStore) = None
   \<and> buildRequestHeaders samplePlatform noEnv (sampleRequest (Some ''user-b''))
        (setCookiesInJar samplePlatform toggleUrl [''anon_id=anon-a; Path=/''] (Some ''user-a'')
           emptyStore)
       = buildRequestHeaders samplePlatform noEnv (sampleRequest (Some ''user-b'')) emptyStore
   \<and> getDynamicHeadersForUrl samplePlatform toggleUrl (Some ''user-b'')
        (rememberResponseHeadersForSession samplePlatform toggleUrl
           (\<lambda>n. if n = ''x-anon-id'' then Some ''anon-a'' else None) (Some ''user-a'') emptyStore)
       = []
   \<and> normalizeSessionScope (Some ([CHR 0x20, CHR 0xA0, CHR 0x09])) = ''__global__''
   \<and> normalizeSessionScope (Some ([CHR 0xA0] @ '' user-b '' @ [CHR 0x0A])) = ''user-b''"
proof -
  have h: "normalizeSessionScope (Some ''user-a'') \<noteq> normalizeSessionScope (Some ''user-b'')"
    by code_simp
  note t = C9_scope_isolation [OF h, of samplePlatform noEnv emptyStore toggleUrl
      "[''anon_id=anon-a; Path=/'']" "''x-anon-id''" "''anon-a''"
      "\<lambda>n. if n = ''x-anon-id'' then Some ''anon-a'' else None"]
  have e1: "getCookieHeaderFromJar samplePlatform toggleUrl (Some ''user-b'') emptyStore = None"
    by code_simp
  have e2: "getDynamicHeadersForUrl samplePlatform toggleUrl (Some ''user-b'') emptyStore = []"
    by code_simp
  have e3: "reqSessionScope (sampleRequest (Some ''user-b'')) = Some ''user-b''"
    by (simp add: sampleRequest_def)
  have b1: "\<forall>c \<in> set [CHR 0x20, CHR 0xA0, CHR 0x09].
              (of_char c :: nat) \<in> {9, 10, 11, 12, 13, 32, 160}"
    by simp
  have b2: "trim ([CHR 0xA0] @ '' user-b '' @ [CHR 0x0A]) = ''user-b''"
    by (simp add: trim_def isSpace_def)
  from t [of "[CHR 0x20, CHR 0xA0, CHR 0x09]"] b1
  have g1: "normalizeSessionScope (Some ([CHR 0x20, CHR 0xA0, CHR 0x09])) = ''__global__''"
    by blast
  from t [of "[CHR 0xA0] @ '' user-b '' @ [CHR 0x0A]"] b2
  have g2: "normalizeSessionScope (Some ([CHR 0xA0] @ '' user-b '' @ [CHR 0x0A])) = ''user-b''"
    by simp
  from t [of "[]"] have t0:
    "sameReads samplePlatform noEnv (Some ''user-b'') emptyStore
       (setCookiesInJar samplePlatform toggleUrl [''anon_id=anon-a; Path=/''] (Some ''user-a'')
          emptyStore)
     \<and> sameReads samplePlatform noEnv (Some ''user-b'') emptyStore
       (rememberResponseHeadersForSession samplePlatform toggleUrl
          (\<lambda>n. if n = ''x-anon-id'' then Some ''anon-a'' else None) (Some ''user-a'') emptyStore)"
    by blast
  from t0 e1 e2 e3 have g3:
   "getCookieHeaderFromJar samplePlatform toggleUrl (Some ''user-b'')
        (setCookiesInJar samplePlatform toggleUrl [''anon_id=anon-a; Path=/''] (Some ''user-a'')
           emptyStore) = None
   \<and> buildRequestHeaders samplePlatform noEnv (sampleRequest (Some ''user-b''))
        (setCookiesInJar samplePlatform toggleUrl [''anon_id=anon-a; Path=/''] (Some ''user-a'')
           emptyStore)
       = buildRequestHeaders samplePlatform noEnv (sampleRequest (Some ''user-b'')) emptyStore
   \<and> getDynamicHeadersForUrl samplePlatform toggleUrl (Some ''user-b'')
        (rememberResponseHeadersForSession samplePlatform toggleUrl
           (\<lambda>n. if n = ''x-anon-id'' then Some ''anon-a'' else None) (Some ''user-a'') emptyStore)
       = []"
    unfolding sameReads_def by metis
  from g1 g2 g3 show ?thesis by blast
qed

section \<open>Checkout URL: synthesis and direct URLs\<close>

lemma show_99887766: "showInt 99887766 = ''99887766''"
  by (simp add: showInt_def showNat.simps digitChar_def)

lemma show_8140069581: "showInt 8140069581 = ''8140069581''"
  by (simp add: showInt_def showNat.simps digitChar_def)

lemma checkoutId_no_direct: "firstUrlCandidate (directUrlCandidates checkoutIdPayload) = None"
  by code_simp

lemma checkoutId_no_nested: "findNestedCheckoutUrl checkoutIdPayload 6 = None"
  by code_simp

lemma checkoutId_purchaseId:
  "extractPurchaseIdFromCheckoutPayload P checkoutIdPayload = Some 99887766"
  by (simp add: extractPurchaseIdFromCheckoutPayload_def checkoutIdPayload_def chain_def
      parseBigintCandidate_def orElse_def)

lemma checkoutId_synthesized:
  "parseCheckoutUrl P baseUrl 8140069581 checkoutIdPayload
     = Some (baseUrl @
         ''/checkout?purchase_id=99887766&order_id=8140069581&order_type=transaction'')"
  by (simp add: parseCheckoutUrl_def checkoutId_no_direct checkoutId_no_nested
      checkoutId_purchaseId synthesizedCheckoutUrl_def show_99887766 show_8140069581)

lemma direct_checkout_url:
  assumes "map_of es ''checkout_url'' = Some (JStr c)" and "trim c \<noteq> []"
  shows "parseCheckoutUrl P baseUrl itemId (JObj es) =
     Some (case urlToString P (trim c) (baseUrl @ ''/'') of Some u \<Rightarrow> u | None \<Rightarrow> trim c)"
  using assms
  by (simp add: parseCheckoutUrl_def directUrlCandidates_def chain_def
      normalizeCheckoutUrlCandidate_def Let_def)

lemma synthesized_from_ids:
  assumes "firstUrlCandidate (directUrlCandidates payload) = None"
    and "findNestedCheckoutUrl payload 6 = None"
  shows "parseCheckoutUrl P baseUrl itemId payload =
     map_option (\<lambda>purchaseId. synthesizedCheckoutUrl baseUrl purchaseId itemId)
       (extractPurchaseIdFromCheckoutPayload P payload)"
  using assms by (simp add: parseCheckoutUrl_def split: option.splits)

text \<open>
  Claim C6, as stated, at a \<open>checkout_url\<close> that holds an absolute URL containing
  \<open>purchase_id\<close> with its host in capitals, and at one with no path: the candidate goes through
  \<open>new URL(...).toString()\<close>, which lower-cases the host and makes the empty path \<open>/\<close>, so what
  comes back is not the URL of the field.
\<close>

theorem C6_counterexample:
  "propOf upperHostUrlPayload ''checkout_url''
     = Some (JStr ''https://WWW.VINTED.NL/checkout?purchase_id=1'')
   \<and> parseCheckoutUrl samplePlatform ''https://www.vinted.nl'' 123 upperHostUrlPayload
     = Some ''https://www.vinted.nl/checkout?purchase_id=1''
   \<and> parseCheckoutUrl samplePlatform ''https://www.vinted.nl'' 123 upperHostUrlPayload
     \<noteq> Some ''https://WWW.VINTED.NL/checkout?purchase_id=1''
   \<and> propOf noPathUrlPayload ''checkout_url'' = Some (JStr ''https://www.vinted.nl?purchase_id=1'')
   \<and> parseCheckoutUrl samplePlatform ''https://www.vinted.nl'' 123 noPathUrlPayload
     = Some ''https://www.vinted.nl/?purchase_id=1''
   \<and> parseCheckoutUrl samplePlatform ''https://www.vinted.nl'' 123 noPathUrlPayload
     \<noteq> Some ''https://www.vinted.nl?purchase_id=1''"
  by code_simp

text \<open>
  Claim C6, amended.  For the payload \<open>{checkout: {id: 99887766}}\<close> and item id 8140069581,
  \<open>parseCheckoutUrl\<close> synthesizes
  \<open><baseUrl>/checkout?purchase_id=99887766&order_id=8140069581&order_type=transaction\<close>.
  For a payload whose \<open>checkout_url\<close> field holds a string that is not blank, it returns that
  string trimmed and then resolved against \<open><baseUrl>/\<close> and serialized by the URL parser (the
  trimmed string itself when the parser throws): the URL of the field as the parser writes
  it, which for a URL already in that form, as the one of the test, is the URL itself.  A
  payload with neither a direct nor a nested URL in which a purchase id is found gives
  \<open><baseUrl>/checkout?purchase_id=<purchase id>&order_id=<item id>&order_type=transaction\<close>: the
  base URL, the purchase id and the item id are all that the result holds.
\<close>

theorem C6_checkout_url:
  "parseCheckoutUrl P baseUrl 8140069581 checkoutIdPayload
     = Some (baseUrl @
         ''/checkout?purchase_id=99887766&order_id=8140069581&order_type=transaction'')
   \<and> (map_of es ''checkout_url'' = Some (JStr c) \<and> trim c \<noteq> [] \<longrightarrow>
        parseCheckoutUrl P baseUrl itemId (JObj es) =
          Some (case urlToString P (trim c) (baseUrl @ ''/'') of
                  Some u \<Rightarrow> u
                | None \<Rightarrow> trim c))
   \<and> (firstUrlCandidate (directUrlCandidates payload) = None
        \<and> findNestedCheckoutUrl payload 6 = None
        \<and> extractPurchaseIdFromCheckoutPayload P payload = Some purchaseId \<longrightarrow>
        parseCheckoutUrl P baseUrl itemId payload =
          Some (baseUrl @ ''/checkout?purchase_id='' @ showInt purchaseId @ ''&order_id=''
                @ showInt itemId @ ''&order_type=transaction''))
   \<and> (firstUrlCandidate (directUrlCandidates payload) = None
        \<and> findNestedCheckoutUrl payload 6 = None
        \<and> extractPurchaseIdFromCheckoutPayload P payload = None \<longrightarrow>
        parseCheckoutUrl P baseUrl itemId payload = None)"
proof -
  have b: "parseCheckoutUrl P baseUrl itemId (JObj es) =
          Some (case urlToString P (trim c) (baseUrl @ ''/'') of Some u \<Rightarrow> u | None \<Rightarrow> trim c)"
    if "map_of es ''checkout_url'' = Some (JStr c)" and "trim c \<noteq> []"
    using direct_checkout_url [OF that] .
  have d: "parseCheckoutUrl P baseUrl itemId payload =
          Some (baseUrl @ ''/checkout?purchase_id='' @ showInt purchaseId @ ''&order_id=''
                @ showInt itemId @ ''&order_type=transaction'')"
    if "firstUrlCandidate (directUrlCandidates payload) = None"
      and "findNestedCheckoutUrl payload 6 = None"
      and "extractPurchaseIdFromCheckoutPayload P payload = Some purchaseId"
    using synthesized_from_ids [OF that(1,2)] that(3) by (simp add: synthesizedCheckoutUrl_def)
  have e: "parseCheckoutUrl P baseUrl itemId payload = None"
    if "firstUrlCandidate (directUrlCandidates payload) = None"
      and "findNestedCheckoutUrl payload 6 = None"
      and "extractPurchaseIdFromCheckoutPayload P payload = None"
    using synthesized_from_ids [OF that(1,2)] that(3) by simp
  from checkoutId_synthesized [of P baseUrl] b d e show ?thesis by blast
qed

theorem C6_checkout_url_witness:
  "parseCheckoutUrl samplePlatform ''https://www.vinted.nl'' 123
      (JObj [(''checkout_url'', JStr ''https://www.vinted.nl/checkout?purchase_id=1'')])
     = Some ''https://www.vinted.nl/checkout?purchase_id=1''
   \<and> parseCheckoutUrl samplePlatform ''https://www.vinted.nl'' 123
      (JObj [(''checkout_url'', JStr ('' https://www.vinted.nl/checkout?purchase_id=1''
                                     @ [CHR 0xA0]))])
     = Some ''https://www.vinted.nl/checkout?purchase_id=1''
   \<and> parseCheckoutUrl samplePlatform ''https://www.vinted.nl'' 8140069581
      (JObj [(''checkout'', JObj [(''id'', JNum 99887766)])])
     = Some ''https://www.vinted.nl/checkout?purchase_id=99887766&order_id=8140069581&order_type=transaction''
   \<and> parseCheckoutUrl samplePlatform ''https://www.vinted.nl'' 123 (JObj []) = None"
proof -
  have h1: "map_of [(''checkout_url'', JStr directUrl)] ''checkout_url'' = Some (JStr directUrl)
            \<and> trim directUrl \<noteq> []"
    by code_simp
  have h1': "map_of [(''checkout_url'', JStr ('' '' @ directUrl @ [CHR 0xA0]))] ''checkout_url''
               = Some (JStr ('' '' @ directUrl @ [CHR 0xA0]))
            \<and> trim ('' '' @ directUrl @ [CHR 0xA0]) \<noteq> []"
    by code_simp
  have u1: "(case urlToString samplePlatform (trim directUrl) (''https://www.vinted.nl'' @ ''/'')
               of Some u \<Rightarrow> u | None \<Rightarrow> trim directUrl) = directUrl"
    by code_simp
  have u1': "(case urlToString samplePlatform (trim ('' '' @ directUrl @ [CHR 0xA0]))
                     (''https://www.vinted.nl'' @ ''/'')
               of Some u \<Rightarrow> u | None \<Rightarrow> trim ('' '' @ directUrl @ [CHR 0xA0])) = directUrl"
    by code_simp
  have h2: "firstUrlCandidate (directUrlCandidates checkoutIdPayload) = None
            \<and> findNestedCheckoutUrl checkoutIdPayload 6 = None"
    by (simp add: checkoutId_no_direct checkoutId_no_nested)
  have h3: "firstUrlCandidate (directUrlCandidates (JObj [])) = None
            \<and> findNestedCheckoutUrl (JObj []) 6 = None
            \<and> extractPurchaseIdFromCheckoutPayload samplePlatform (JObj []) = None"
    by code_simp
  from C6_checkout_url [where P = samplePlatform and baseUrl = "''https://www.vinted.nl''"
      and es = "[(''checkout_url'', JStr directUrl)]" and c = directUrl and itemId = 123] h1 u1
  have a: "parseCheckoutUrl samplePlatform ''https://www.vinted.nl'' 123
      (JObj [(''checkout_url'', JStr directUrl)]) = Some directUrl"
    by simp
  from C6_checkout_url [where P = samplePlatform and baseUrl = "''https://www.vinted.nl''"
      and es = "[(''checkout_url'', JStr ('' '' @ directUrl @ [CHR 0xA0]))]"
      and c = "'' '' @ directUrl @ [CHR 0xA0]" and itemId = 123] h1' u1'
  have a': "parseCheckoutUrl samplePlatform ''https://www.vinted.nl'' 123
      (JObj [(''checkout_url'', JStr ('' '' @ directUrl @ [CHR 0xA0]))]) = Some directUrl"
    by simp
  from C6_checkout_url [where P = samplePlatform and baseUrl = "''https://www.vinted.nl''"]
  have b: "parseCheckoutUrl samplePlatform ''https://www.vinted.nl'' 8140069581 checkoutIdPayload
     = Some (''https://www.vinted.nl'' @
         ''/checkout?purchase_id=99887766&order_id=8140069581&order_type=transaction'')"
    by blast
  from C6_checkout_url [where P = samplePlatform and baseUrl = "''https://www.vinted.nl''"
      and payload = "JObj []" and itemId = 123] h3
  have c: "parseCheckoutUrl samplePlatform ''https://www.vinted.nl'' 123 (JObj []) = None"
    by blast
  from a a' b c show ?thesis by (simp add: directUrl_def checkoutIdPayload_def)
qed

section \<open>Favourite toggle: the state nobody can read\<close>






section \<open>Offer: three endpoints in order\<close>

lemma fetchRetry_calls:
  "snd (fetchWithAuthorizationRetry P net input url body calls)
     = calls @ [actionRequest P input url body False]
   \<or> snd (fetchWithAuthorizationRetry P net input url body calls)
     = calls @ [actionRequest P input url body False, actionRequest P input url body True]"
  by (auto simp: fetchWithAuthorizationRetry_def callFetchJson_def split: sum.splits)

lemma sendOfferRequest_calls:
  "snd (sendOfferRequest P net input url body calls)
     = snd (fetchWithAuthorizationRetry P net input url body calls)"
  by (auto simp: sendOfferRequest_def split: prod.splits sum.splits option.splits)

lemma attempt_ext:
  "\<exists>e. snd (sendOfferRequest P net input url body calls) = calls @ e
       \<and> (map fjUrl e = [url] \<or> map fjUrl e = [url, url])"
  using fetchRetry_calls [of P net input url body calls]
  by (auto simp: sendOfferRequest_calls actionRequest_def)

lemma urls_distinct:
  "offerRequestsUrl input \<noteq> transactionOffersUrl input"
  "transactionOffersUrl input \<noteq> legacyOffersUrl input"
  "offerRequestsUrl input \<noteq> legacyOffersUrl input"
  by (simp_all add: offerRequestsUrl_def transactionOffersUrl_def legacyOffersUrl_def)

lemma choose_no_signal:
  assumes "\<not> looksMoreSpecific (toLowerCase e1)" and "\<not> looksMoreSpecific (toLowerCase e2)"
    and "\<not> looksMoreSpecific (toLowerCase e3)"
  shows "chooseOfferError e1 e2 e3 = e3"
  using assms by (simp add: chooseOfferError_def Let_def)

lemma choose_one_of: "chooseOfferError e1 e2 e3 \<in> {e1, e2, e3}"
  by (simp add: chooseOfferError_def Let_def)

lemma attempt_of_answer:
  assumes "fetchWithAuthorizationRetry P net input url body calls = (r, calls')"
  shows "sendOfferRequest P net input url body calls =
           ((case r of
               Inl e \<Rightarrow> Inl e
             | Inr payload \<Rightarrow>
                 (case extractErrorsPayloadMessage P payload of
                    Some payloadError \<Rightarrow> Inl payloadError
                  | None \<Rightarrow> Inr ())), calls')"
  using assms by (simp add: sendOfferRequest_def split: sum.splits option.splits)

lemma endpoints1:
  "endpointsCalled calls (snd (modernEndpointAttempt P net input calls))
     = [offerRequestsUrl input]"
proof -
  obtain e where "snd (modernEndpointAttempt P net input calls) = calls @ e"
    "map fjUrl e = [offerRequestsUrl input]
     \<or> map fjUrl e = [offerRequestsUrl input, offerRequestsUrl input]"
    using attempt_ext [of P net input "offerRequestsUrl input" "offerRequestsBody input" calls]
    by (auto simp: modernEndpointAttempt_def)
  then show ?thesis by (auto simp: endpointsCalled_def)
qed

lemma endpoints2:
  "endpointsCalled calls
     (snd (transactionOffersAttempt P net input (snd (modernEndpointAttempt P net input calls))))
   = [offerRequestsUrl input, transactionOffersUrl input]"
proof -
  let ?c1 = "snd (modernEndpointAttempt P net input calls)"
  obtain e1 where e1: "?c1 = calls @ e1"
    "map fjUrl e1 = [offerRequestsUrl input]
     \<or> map fjUrl e1 = [offerRequestsUrl input, offerRequestsUrl input]"
    using attempt_ext [of P net input "offerRequestsUrl input" "offerRequestsBody input" calls]
    by (auto simp: modernEndpointAttempt_def)
  obtain e2 where e2: "snd (transactionOffersAttempt P net input ?c1) = ?c1 @ e2"
    "map fjUrl e2 = [transactionOffersUrl input]
     \<or> map fjUrl e2 = [transactionOffersUrl input, transactionOffersUrl input]"
    using attempt_ext [of P net input "transactionOffersUrl input"
        "transactionOffersBody input" ?c1]
    by (auto simp: transactionOffersAttempt_def)
  have "snd (transactionOffersAttempt P net input ?c1) = calls @ e1 @ e2"
    by (subst e2(1), subst e1(1)) simp
  then have "endpointsCalled calls (snd (transactionOffersAttempt P net input ?c1))
          = remdups_adj (map fjUrl e1 @ map fjUrl e2)"
    by (simp add: endpointsCalled_def)
  with e1(2) e2(2) urls_distinct [of input] show ?thesis by auto
qed

lemma endpoints3:
  "endpointsCalled calls
     (snd (legacyEndpointAttempt P net input
        (snd (transactionOffersAttempt P net input
           (snd (modernEndpointAttempt P net input calls))))))
   = [offerRequestsUrl input, transactionOffersUrl input, legacyOffersUrl input]"
proof -
  let ?c1 = "snd (modernEndpointAttempt P net input calls)"
  let ?c2 = "snd (transactionOffersAttempt P net input ?c1)"
  obtain e1 where e1: "?c1 = calls @ e1"
    "map fjUrl e1 = [offerRequestsUrl input]
     \<or> map fjUrl e1 = [offerRequestsUrl input, offerRequestsUrl input]"
    using attempt_ext [of P net input "offerRequestsUrl input" "offerRequestsBody input" calls]
    by (auto simp: modernEndpointAttempt_def)
  obtain e2 where e2: "?c2 = ?c1 @ e2"
    "map fjUrl e2 = [transactionOffersUrl input]
     \<or> map fjUrl e2 = [transactionOffersUrl input, transactionOffersUrl input]"
    using attempt_ext [of P net input "transactionOffersUrl input"
        "transactionOffersBody input" ?c1]
    by (auto simp: transactionOffersAttempt_def)
  obtain e3 where e3: "snd (legacyEndpointAttempt P net input ?c2) = ?c2 @ e3"
    "map fjUrl e3 = [legacyOffersUrl input]
     \<or> map fjUrl e3 = [legacyOffersUrl input, legacyOffersUrl input]"
    using attempt_ext [of P net input "legacyOffersUrl input" "legacyOffersBody P input" ?c2]
    by (auto simp: legacyEndpointAttempt_def)
  have "snd (legacyEndpointAttempt P net input ?c2) = calls @ e1 @ e2 @ e3"
    by (subst e3(1), subst e2(1), subst e1(1)) simp
  then have "endpointsCalled calls (snd (legacyEndpointAttempt P net input ?c2))
          = remdups_adj (map fjUrl e1 @ map fjUrl e2 @ map fjUrl e3)"
    by (simp add: endpointsCalled_def)
  with e1(2) e2(2) e3(2) urls_distinct [of input] show ?thesis by auto
qed

text \<open>
  Claim C8.  \<open>sendOffer\<close> sends the offer to the transaction-scoped \<open>offer_requests\<close> endpoint,
  then to the transaction-scoped \<open>offers\<close> endpoint, then to the global \<open>/api/v2/offers\<close>
  endpoint, each with one request and at most one retry with \<open>Authorization\<close>.  Call the
  answers to the three (the answer to the retry where there is one) \<open>r1\<close>, \<open>r2\<close>, \<open>r3\<close>.  An
  answer is a success when it is a parsed payload without a payload-level error; it is a
  failure with message \<open>m\<close> when it is the error \<open>m\<close> or a payload whose payload-level error is
  \<open>m\<close>.  The first success is returned and no later endpoint is called.  When all three
  fail, the three endpoints were called in that order, the error returned is one of the
  three messages, and when none of them contains \<open>access_denied\<close>, \<open>cloudflare\<close>, \<open>captcha\<close> or
  \<open>blockiert\<close> (in any case of the letters) it is the message of the legacy endpoint.
\<close>

theorem C8_sendOffer_order:
  assumes "fetchWithAuthorizationRetry P net input (offerRequestsUrl input)
             (offerRequestsBody input) calls = (r1, calls1)"
    and "fetchWithAuthorizationRetry P net input (transactionOffersUrl input)
             (transactionOffersBody input) calls1 = (r2, calls2)"
    and "fetchWithAuthorizationRetry P net input (legacyOffersUrl input)
             (legacyOffersBody P input) calls2 = (r3, calls3)"
  shows "((case r1 of Inl e \<Rightarrow> False
                    | Inr payload \<Rightarrow> extractErrorsPayloadMessage P payload = None) \<longrightarrow>
            sendOffer P net input calls = (Inr (), calls1)
            \<and> endpointsCalled calls calls1 = [offerRequestsUrl input])
   \<and> ((case r1 of Inl e \<Rightarrow> e = m1
                    | Inr payload \<Rightarrow> extractErrorsPayloadMessage P payload = Some m1)
        \<and> (case r2 of Inl e \<Rightarrow> False
                      | Inr payload \<Rightarrow> extractErrorsPayloadMessage P payload = None) \<longrightarrow>
            sendOffer P net input calls = (Inr (), calls2)
            \<and> endpointsCalled calls calls2 = [offerRequestsUrl input, transactionOffersUrl input])
   \<and> ((case r1 of Inl e \<Rightarrow> e = m1
                    | Inr payload \<Rightarrow> extractErrorsPayloadMessage P payload = Some m1)
        \<and> (case r2 of Inl e \<Rightarrow> e = m2
                      | Inr payload \<Rightarrow> extractErrorsPayloadMessage P payload = Some m2)
        \<and> (case r3 of Inl e \<Rightarrow> False
                      | Inr payload \<Rightarrow> extractErrorsPayloadMessage P payload = None) \<longrightarrow>
            sendOffer P net input calls = (Inr (), calls3)
            \<and> endpointsCalled calls calls3
                = [offerRequestsUrl input, transactionOffersUrl input, legacyOffersUrl input])
   \<and> ((case r1 of Inl e \<Rightarrow> e = m1
                    | Inr payload \<Rightarrow> extractErrorsPayloadMessage P payload = Some m1)
        \<and> (case r2 of Inl e \<Rightarrow> e = m2
                      | Inr payload \<Rightarrow> extractErrorsPayloadMessage P payload = Some m2)
        \<and> (case r3 of Inl e \<Rightarrow> e = m3
                      | Inr payload \<Rightarrow> extractErrorsPayloadMessage P payload = Some m3) \<longrightarrow>
            snd (sendOffer P net input calls) = calls3
            \<and> endpointsCalled calls calls3
                = [offerRequestsUrl input, transactionOffersUrl input, legacyOffersUrl input]
            \<and> fst (sendOffer P net input calls) \<in> {Inl m1, Inl m2, Inl m3}
            \<and> ((\<forall>m \<in> {m1, m2, m3}.
                    \<not> includesStr (toLowerCase m) ''access_denied''
                    \<and> \<not> includesStr (toLowerCase m) ''cloudflare''
                    \<and> \<not> includesStr (toLowerCase m) ''captcha''
                    \<and> \<not> includesStr (toLowerCase m) ''blockiert'') \<longrightarrow>
                 fst (sendOffer P net input calls) = Inl m3))"
proof -
  note a1 = attempt_of_answer [OF assms(1)]
  note a2 = attempt_of_answer [OF assms(2)]
  note a3 = attempt_of_answer [OF assms(3)]
  have c1: "snd (modernEndpointAttempt P net input calls) = calls1"
    by (simp add: modernEndpointAttempt_def a1)
  have c2: "snd (transactionOffersAttempt P net input calls1) = calls2"
    by (simp add: transactionOffersAttempt_def a2)
  have c3: "snd (legacyEndpointAttempt P net input calls2) = calls3"
    by (simp add: legacyEndpointAttempt_def a3)
  have e1: "endpointsCalled calls calls1 = [offerRequestsUrl input]"
    using endpoints1 [of calls P net input] by (simp add: c1)
  have e2: "endpointsCalled calls calls2 = [offerRequestsUrl input, transactionOffersUrl input]"
    using endpoints2 [of calls P net input] by (simp add: c1 c2)
  have e3: "endpointsCalled calls calls3
              = [offerRequestsUrl input, transactionOffersUrl input, legacyOffersUrl input]"
    using endpoints3 [of calls P net input] by (simp add: c1 c2 c3)
  have ok1: "sendOffer P net input calls = (Inr (), calls1)"
    if "case r1 of Inl e \<Rightarrow> False
                 | Inr payload \<Rightarrow> extractErrorsPayloadMessage P payload = None"
    using that by (simp add: sendOffer_def modernEndpointAttempt_def a1 split: sum.splits)
  have f1: "modernEndpointAttempt P net input calls = (Inl m1, calls1)"
    if "case r1 of Inl e \<Rightarrow> e = m1
                 | Inr payload \<Rightarrow> extractErrorsPayloadMessage P payload = Some m1"
    using that by (simp add: modernEndpointAttempt_def a1 split: sum.splits)
  have ok2: "transactionOffersAttempt P net input calls1 = (Inr (), calls2)"
    if "case r2 of Inl e \<Rightarrow> False
                 | Inr payload \<Rightarrow> extractErrorsPayloadMessage P payload = None"
    using that by (simp add: transactionOffersAttempt_def a2 split: sum.splits)
  have f2: "transactionOffersAttempt P net input calls1 = (Inl m2, calls2)"
    if "case r2 of Inl e \<Rightarrow> e = m2
                 | Inr payload \<Rightarrow> extractErrorsPayloadMessage P payload = Some m2"
    using that by (simp add: transactionOffersAttempt_def a2 split: sum.splits)
  have ok3: "legacyEndpointAttempt P net input calls2 = (Inr (), calls3)"
    if "case r3 of Inl e \<Rightarrow> False
                 | Inr payload \<Rightarrow> extractErrorsPayloadMessage P payload = None"
    using that by (simp add: legacyEndpointAttempt_def a3 split: sum.splits)
  have f3: "legacyEndpointAttempt P net input calls2 = (Inl m3, calls3)"
    if "case r3 of Inl e \<Rightarrow> e = m3
                 | Inr payload \<Rightarrow> extractErrorsPayloadMessage P payload = Some m3"
    using that by (simp add: legacyEndpointAttempt_def a3 split: sum.splits)
  have p2: "sendOffer P net input calls = (Inr (), calls2)"
    if "case r1 of Inl e \<Rightarrow> e = m1
                 | Inr payload \<Rightarrow> extractErrorsPayloadMessage P payload = Some m1"
      and "case r2 of Inl e \<Rightarrow> False
                 | Inr payload \<Rightarrow> extractErrorsPayloadMessage P payload = None"
    by (simp add: sendOffer_def f1 [OF that(1)] ok2 [OF that(2)])
  have p3: "sendOffer P net input calls = (Inr (), calls3)"
    if "case r1 of Inl e \<Rightarrow> e = m1
                 | Inr payload \<Rightarrow> extractErrorsPayloadMessage P payload = Some m1"
      and "case r2 of Inl e \<Rightarrow> e = m2
                 | Inr payload \<Rightarrow> extractErrorsPayloadMessage P payload = Some m2"
      and "case r3 of Inl e \<Rightarrow> False
                 | Inr payload \<Rightarrow> extractErrorsPayloadMessage P payload = None"
    by (simp add: sendOffer_def f1 [OF that(1)] f2 [OF that(2)] ok3 [OF that(3)])
  have p4: "sendOffer P net input calls = (Inl (chooseOfferError m1 m2 m3), calls3)"
    if "case r1 of Inl e \<Rightarrow> e = m1
                 | Inr payload \<Rightarrow> extractErrorsPayloadMessage P payload = Some m1"
      and "case r2 of Inl e \<Rightarrow> e = m2
                 | Inr payload \<Rightarrow> extractErrorsPayloadMessage P payload = Some m2"
      and "case r3 of Inl e \<Rightarrow> e = m3
                 | Inr payload \<Rightarrow> extractErrorsPayloadMessage P payload = Some m3"
    by (simp add: sendOffer_def f1 [OF that(1)] f2 [OF that(2)] f3 [OF that(3)])
  have q4: "chooseOfferError m1 m2 m3 = m3"
    if "\<forall>m \<in> {m1, m2, m3}.
                    \<not> includesStr (toLowerCase m) ''access_denied''
                    \<and> \<not> includesStr (toLowerCase m) ''cloudflare''
                    \<and> \<not> includesStr (toLowerCase m) ''captcha''
                    \<and> \<not> includesStr (toLowerCase m) ''blockiert''"
    using that by (intro choose_no_signal) (simp_all add: looksMoreSpecific_def)
  have r4: "Inl (chooseOfferError m1 m2 m3) \<in> {Inl m1, Inl m2, Inl m3 :: unit Result}"
    using choose_one_of [of m1 m2 m3] by auto
  have A: "(case r1 of Inl e \<Rightarrow> False
                    | Inr payload \<Rightarrow> extractErrorsPayloadMessage P payload = None) \<longrightarrow>
            sendOffer P net input calls = (Inr (), calls1)
            \<and> endpointsCalled calls calls1 = [offerRequestsUrl input]"
    using ok1 e1 by blast
  have B: "(case r1 of Inl e \<Rightarrow> e = m1
                    | Inr payload \<Rightarrow> extractErrorsPayloadMessage P payload = Some m1)
        \<and> (case r2 of Inl e \<Rightarrow> False
                      | Inr payload \<Rightarrow> extractErrorsPayloadMessage P payload = None) \<longrightarrow>
            sendOffer P net input calls = (Inr (), calls2)
            \<and> endpointsCalled calls calls2 = [offerRequestsUrl input, transactionOffersUrl input]"
    using p2 e2 by blast
  have C: "(case r1 of Inl e \<Rightarrow> e = m1
                    | Inr payload \<Rightarrow> extractErrorsPayloadMessage P payload = Some m1)
        \<and> (case r2 of Inl e \<Rightarrow> e = m2
                      | Inr payload \<Rightarrow> extractErrorsPayloadMessage P payload = Some m2)
        \<and> (case r3 of Inl e \<Rightarrow> False
                      | Inr payload \<Rightarrow> extractErrorsPayloadMessage P payload = None) \<longrightarrow>
            sendOffer P net input calls = (Inr (), calls3)
            \<and> endpointsCalled calls calls3
                = [offerRequestsUrl input, transactionOffersUrl input, legacyOffersUrl input]"
    using p3 e3 by blast
  have D: "(case r1 of Inl e \<Rightarrow> e = m1
                    | Inr payload \<Rightarrow> extractErrorsPayloadMessage P payload = Some m1)
        \<and> (case r2 of Inl e \<Rightarrow> e = m2
                      | Inr payload \<Rightarrow> extractErrorsPayloadMessage P payload = Some m2)
        \<and> (case r3 of Inl e \<Rightarrow> e = m3
                      | Inr payload \<Rightarrow> extractErrorsPayloadMessage P payload = Some m3) \<longrightarrow>
            snd (sendOffer P net input calls) = calls3
            \<and> endpointsCalled calls calls3
                = [offerRequestsUrl input, transactionOffersUrl input, legacyOffersUrl input]
            \<and> fst (sendOffer P net input calls) \<in> {Inl m1, Inl m2, Inl m3}
            \<and> ((\<forall>m \<in> {m1, m2, m3}.
                    \<not> includesStr (toLowerCase m) ''access_denied''
                    \<and> \<not> includesStr (toLowerCase m) ''cloudflare''
                    \<and> \<not> includesStr (toLowerCase m) ''captcha''
                    \<and> \<not> includesStr (toLowerCase m) ''blockiert'') \<longrightarrow>
                 fst (sendOffer P net input calls) = Inl m3)"
  proof (intro impI)
    assume h: "(case r1 of Inl e \<Rightarrow> e = m1
                    | Inr payload \<Rightarrow> extractErrorsPayloadMessage P payload = Some m1)
        \<and> (case r2 of Inl e \<Rightarrow> e = m2
                      | Inr payload \<Rightarrow> extractErrorsPayloadMessage P payload = Some m2)
        \<and> (case r3 of Inl e \<Rightarrow> e = m3
                      | Inr payload \<Rightarrow> extractErrorsPayloadMessage P payload = Some m3)"
    then have p: "sendOffer P net input calls = (Inl (chooseOfferError m1 m2 m3), calls3)"
      using p4 by blast
    have s1: "snd (sendOffer P net input calls) = calls3" by (simp add: p)
    have s2: "fst (sendOffer P net input calls) = Inl (chooseOfferError m1 m2 m3)"
      by (simp add: p)
    have s3: "fst (sendOffer P net input calls) \<in> {Inl m1, Inl m2, Inl m3}"
      unfolding s2 by (rule r4)
    have s4: "fst (sendOffer P net input calls) = Inl m3"
      if "\<forall>m \<in> {m1, m2, m3}.
                    \<not> includesStr (toLowerCase m) ''access_denied''
                    \<and> \<not> includesStr (toLowerCase m) ''cloudflare''
                    \<and> \<not> includesStr (toLowerCase m) ''captcha''
                    \<and> \<not> includesStr (toLowerCase m) ''blockiert''"
      unfolding s2 using q4 [OF that] by simp
    from s1 e3 s3 s4 show "snd (sendOffer P net input calls) = calls3
            \<and> endpointsCalled calls calls3
                = [offerRequestsUrl input, transactionOffersUrl input, legacyOffersUrl input]
            \<and> fst (sendOffer P net input calls) \<in> {Inl m1, Inl m2, Inl m3}
            \<and> ((\<forall>m \<in> {m1, m2, m3}.
                    \<not> includesStr (toLowerCase m) ''access_denied''
                    \<and> \<not> includesStr (toLowerCase m) ''cloudflare''
                    \<and> \<not> includesStr (toLowerCase m) ''captcha''
                    \<and> \<not> includesStr (toLowerCase m) ''blockiert'') \<longrightarrow>
                 fst (sendOffer P net input calls) = Inl m3)"
      by blast
  qed
  from A B C D show ?thesis by blast
qed

theorem C8_sendOffer_order_witness:
  "sendOffer samplePlatform closedOfferNet sampleAction []
     = (Inl ''Vinted request failed (422). price is too low'',
        [actionRequest samplePlatform sampleAction (offerRequestsUrl sampleAction)
           (offerRequestsBody sampleAction) False,
         actionRequest samplePlatform sampleAction (transactionOffersUrl sampleAction)
           (transactionOffersBody sampleAction) False,
         actionRequest samplePlatform sampleAction (legacyOffersUrl sampleAction)
           (legacyOffersBody samplePlatform sampleAction) False,
         actionRequest samplePlatform sampleAction (legacyOffersUrl sampleAction)
           (legacyOffersBody samplePlatform sampleAction) True])
   \<and> map fjUrl (snd (sendOffer samplePlatform closedOfferNet sampleAction []))
     = [''https://www.vinted.nl/api/v2/transactions/88/offer_requests'',
        ''https://www.vinted.nl/api/v2/transactions/88/offers'',
        ''https://www.vinted.nl/api/v2/offers'',
        ''https://www.vinted.nl/api/v2/offers'']
   \<and> fst (sendOffer samplePlatform secondOfferNet sampleAction []) = Inr ()
   \<and> map fjUrl (snd (sendOffer samplePlatform secondOfferNet sampleAction []))
     = [''https://www.vinted.nl/api/v2/transactions/88/offer_requests'',
        ''https://www.vinted.nl/api/v2/transactions/88/offers'']
   \<and> fst (sendOffer samplePlatform captchaOfferNet sampleAction [])
     = Inl ''Vinted request failed (429). Captcha required''"
proof -
  let ?req = "\<lambda>url body auth. actionRequest samplePlatform sampleAction url body auth"
  let ?u1 = "offerRequestsUrl sampleAction" and ?b1 = "offerRequestsBody sampleAction"
  let ?u2 = "transactionOffersUrl sampleAction" and ?b2 = "transactionOffersBody sampleAction"
  let ?u3 = "legacyOffersUrl sampleAction" and ?b3 = "legacyOffersBody samplePlatform sampleAction"
  let ?c1 = "[?req ?u1 ?b1 False]"
  let ?c2 = "[?req ?u1 ?b1 False, ?req ?u2 ?b2 False]"
  let ?c3 = "[?req ?u1 ?b1 False, ?req ?u2 ?b2 False, ?req ?u3 ?b3 False, ?req ?u3 ?b3 True]"
  have urls: "?u1 = ''https://www.vinted.nl/api/v2/transactions/88/offer_requests''"
    "?u2 = ''https://www.vinted.nl/api/v2/transactions/88/offers''"
    "?u3 = ''https://www.vinted.nl/api/v2/offers''"
    by (simp_all add: offerRequestsUrl_def transactionOffersUrl_def legacyOffersUrl_def
        sampleAction_def baseUrlForRegion_def showInt_def showNat.simps digitChar_def)
  have h1: "fetchWithAuthorizationRetry samplePlatform closedOfferNet sampleAction ?u1 ?b1 []
              = (Inr offersClosedPayload, ?c1)"
    by (simp add: fetchWithAuthorizationRetry_def callFetchJson_def closedOfferNet_def
        actionRequest_def)
  have h2: "fetchWithAuthorizationRetry samplePlatform closedOfferNet sampleAction ?u2 ?b2 ?c1
              = (Inl notFoundMessage, ?c2)"
    by (simp add: fetchWithAuthorizationRetry_def callFetchJson_def closedOfferNet_def
        actionRequest_def urls) code_simp
  have h3: "fetchWithAuthorizationRetry samplePlatform closedOfferNet sampleAction ?u3 ?b3 ?c2
              = (Inl priceTooLowMessage, ?c3)"
    by (simp add: fetchWithAuthorizationRetry_def callFetchJson_def closedOfferNet_def
        actionRequest_def urls buildActionAuthHeaders_def) code_simp
  have k1: "case Inr offersClosedPayload :: json Result of
              Inl e \<Rightarrow> e = offersClosedMessage
            | Inr payload \<Rightarrow>
                extractErrorsPayloadMessage samplePlatform payload = Some offersClosedMessage"
    by code_simp
  have k2: "case Inl notFoundMessage :: json Result of
              Inl e \<Rightarrow> e = notFoundMessage
            | Inr payload \<Rightarrow>
                extractErrorsPayloadMessage samplePlatform payload = Some notFoundMessage"
    by simp
  have k3: "case Inl priceTooLowMessage :: json Result of
              Inl e \<Rightarrow> e = priceTooLowMessage
            | Inr payload \<Rightarrow>
                extractErrorsPayloadMessage samplePlatform payload = Some priceTooLowMessage"
    by simp
  have n: "\<forall>m \<in> {offersClosedMessage, notFoundMessage, priceTooLowMessage}.
                    \<not> includesStr (toLowerCase m) ''access_denied''
                    \<and> \<not> includesStr (toLowerCase m) ''cloudflare''
                    \<and> \<not> includesStr (toLowerCase m) ''captcha''
                    \<and> \<not> includesStr (toLowerCase m) ''blockiert''"
    by code_simp
  from C8_sendOffer_order [OF h1 h2 h3, of offersClosedMessage notFoundMessage
      priceTooLowMessage] k1 k2 k3 n
  have t1: "snd (sendOffer samplePlatform closedOfferNet sampleAction []) = ?c3"
    and t2: "fst (sendOffer samplePlatform closedOfferNet sampleAction [])
               = Inl priceTooLowMessage"
    by blast+
  have g1: "fetchWithAuthorizationRetry samplePlatform secondOfferNet sampleAction ?u1 ?b1 []
              = (Inr offersClosedPayload, ?c1)"
    by (simp add: fetchWithAuthorizationRetry_def callFetchJson_def secondOfferNet_def
        actionRequest_def)
  have g2: "fetchWithAuthorizationRetry samplePlatform secondOfferNet sampleAction ?u2 ?b2 ?c1
              = (Inr (JObj []), ?c2)"
    by (simp add: fetchWithAuthorizationRetry_def callFetchJson_def secondOfferNet_def
        actionRequest_def urls)
  obtain r3 c3 where g3:
    "fetchWithAuthorizationRetry samplePlatform secondOfferNet sampleAction ?u3 ?b3 ?c2 = (r3, c3)"
    by (cases "fetchWithAuthorizationRetry samplePlatform secondOfferNet sampleAction ?u3 ?b3 ?c2")
  have j2: "case Inr (JObj []) :: json Result of
              Inl e \<Rightarrow> False
            | Inr payload \<Rightarrow> extractErrorsPayloadMessage samplePlatform payload = None"
    by code_simp
  from C8_sendOffer_order [OF g1 g2 g3, of offersClosedMessage] k1 j2
  have t3: "sendOffer samplePlatform secondOfferNet sampleAction [] = (Inr (), ?c2)"
    by blast
  have m3: "map fjUrl ?c3
               = [''https://www.vinted.nl/api/v2/transactions/88/offer_requests'',
                  ''https://www.vinted.nl/api/v2/transactions/88/offers'',
                  ''https://www.vinted.nl/api/v2/offers'', ''https://www.vinted.nl/api/v2/offers'']"
    and m2: "map fjUrl ?c2
               = [''https://www.vinted.nl/api/v2/transactions/88/offer_requests'',
                  ''https://www.vinted.nl/api/v2/transactions/88/offers'']"
    by (simp_all add: actionRequest_def urls)
  have p: "sendOffer samplePlatform closedOfferNet sampleAction [] = (Inl priceTooLowMessage, ?c3)"
    using t1 t2 by (simp add: prod_eq_iff)
  have q: "fst (sendOffer samplePlatform captchaOfferNet sampleAction [])
     = Inl ''Vinted request failed (429). Captcha required''"
    by code_simp
  show ?thesis
    unfolding p t3 q by (simp only: fst_conv snd_conv m3 m2 priceTooLowMessage_def)
qed

section \<open>Checkout build against a captcha-delivery challenge\<close>

text \<open>
  Claim C5, on the code.  A 403 whose body names a captcha-delivery challenge reaches
  \<open>buildCheckout\<close> as the message \<open>Vinted request failed (403). {"url":"<challenge>"}\<close>.
  When every checkout build is answered so, \<open>buildCheckout\<close> calls the build endpoint without
  \<open>Authorization\<close>, again with it, then the catalogue preflight, then the build endpoint a
  third time; the challenge URL is never requested, and the value returned is
  \<open>{checkoutUrl: null}\<close>, an object with no other field.
\<close>

theorem C5_buildCheckout_at_challenge:
  "result (fetchJson samplePlatform
        \<lparr>backend = backend_fetch, preferCurl = False, fetchOutcome = Some challengeResponse,
         curlRuns = (\<lambda>k. curlNoConnect)\<rparr>) = Inl challengeMessage
   \<and> fst (buildCheckout samplePlatform challengeNet sampleAction [])
       = Inr \<lparr>checkoutUrl = None\<rparr>
   \<and> map fjUrl (snd (buildCheckout samplePlatform challengeNet sampleAction []))
       = [buildCheckoutUrl sampleAction, buildCheckoutUrl sampleAction,
          preflightUrl sampleAction, buildCheckoutUrl sampleAction]
   \<and> challengeUrl \<notin> set (map fjUrl (snd (buildCheckout samplePlatform challengeNet
                                              sampleAction [])))"
  by code_simp

end
